theory Spec2Isabelle
  imports Complex_Main "HOL-Library.AList"
begin

section \<open>Coordinate matrices of pycroscopy's translator module\<close>

text \<open>
  This theory embeds the functions of \<^verbatim>\<open>pycroscopy/core/io/translator.py\<close>:
  \<^verbatim>\<open>make_position_mat\<close>, \<^verbatim>\<open>get_position_slicing\<close>, \<^verbatim>\<open>get_spectral_slicing\<close>,
  \<^verbatim>\<open>build_ind_val_dsets\<close>, \<^verbatim>\<open>generate_dummy_main_parms\<close> and
  \<^verbatim>\<open>Translator.simple_write\<close>.

  Conventions of the embedding.
  \<^item> A two-dimensional numpy array is a record of its shape and its rows. The shape
    is kept beside the rows because an array with no row still has a column count.
  \<^item> Axis sizes are a list of natural numbers (the docstring types them as
    \<^verbatim>\<open>array_like of numpy.uint\<close>). numpy makes an integer array of a list with an
    entry and a float array of the empty list. Products and indices are unbounded, that
    is, the arrays are assumed to fit the machine's integer range.
  \<^item> Floating-point values are rational numbers: rounding to \<^verbatim>\<open>float32\<close> is
    not part of the model, only which numbers are combined with which.
  \<^item> A Python dictionary is an association list with distinct keys in insertion
    order; item assignment is \<^const>\<open>AList.update\<close>, which replaces the value of a
    key already present and appends a new key otherwise.
\<close>

subsection \<open>Arrays\<close>

record 'a ndarray =
  nrows :: nat
  ncols :: nat
  cells :: "'a list list"

text \<open>\<^verbatim>\<open>np.zeros(shape=(r, c), dtype=np.uint32)\<close>\<close>

definition zeros :: "nat \<Rightarrow> nat \<Rightarrow> nat ndarray" where
  "zeros r c = \<lparr>nrows = r, ncols = c, cells = replicate r (replicate c 0)\<rparr>"

text \<open>\<^verbatim>\<open>np.tile(a, reps)\<close> for a one-dimensional \<^verbatim>\<open>a\<close>.\<close>

definition tile :: "'a list \<Rightarrow> nat \<Rightarrow> 'a list" where
  "tile a reps = concat (replicate reps a)"

text \<open>
  \<^verbatim>\<open>pos_mat[:, j] = col\<close>. numpy accepts the assignment as an element-by-element
  copy when \<^verbatim>\<open>col\<close> has one entry per row; lemma \<open>loop_column_length\<close> below shows
  that the loop of \<^verbatim>\<open>make_position_mat\<close> only ever assigns such a column.
\<close>

definition set_column :: "'a ndarray \<Rightarrow> nat \<Rightarrow> 'a list \<Rightarrow> 'a ndarray" where
  "set_column m j col = m\<lparr>cells := map (\<lambda>(row, v). row[j := v]) (zip (cells m) col)\<rparr>"

text \<open>\<^verbatim>\<open>m.transpose()\<close>\<close>

definition transpose_nd :: "'a ndarray \<Rightarrow> 'a ndarray" where
  "transpose_nd m =
     \<lparr>nrows = ncols m, ncols = nrows m,
      cells = map (\<lambda>j. map (\<lambda>row. row ! j) (cells m)) [0..<ncols m]\<rparr>"

subsection \<open>Exceptions\<close>

text \<open>
  The exceptions a call can end with. A \<^verbatim>\<open>ValueError\<close> is kept with its message.
  \<^verbatim>\<open>TypeError\<close> is numpy's, raised when a shape is not made of integers.
  \<^verbatim>\<open>IndexError\<close> and \<open>ExternalError\<close> are for \<^verbatim>\<open>simple_write\<close> and its collaborators.
\<close>

datatype error = ValueError string | TypeError | IndexError | ExternalError string

subsection \<open>\<^verbatim>\<open>make_position_mat\<close>\<close>

text \<open>
  The body of the \<^verbatim>\<open>for indx, curr_steps in enumerate(num_steps)\<close> loop; the loop
  state is the pair \<^verbatim>\<open>(pos_mat, pos_ind)\<close>. \<^verbatim>\<open>np.floor(np.arange(part1)/part2)\<close>
  is the integer quotient of each \<^verbatim>\<open>0 \<le> q < part1\<close> by \<^verbatim>\<open>part2\<close>.
\<close>

definition position_step ::
  "nat list \<Rightarrow> nat \<times> nat \<Rightarrow> nat ndarray \<times> nat \<Rightarrow> nat ndarray \<times> nat" where
  "position_step num_steps = (\<lambda>(indx, curr_steps) (pos_mat, pos_ind).
     if curr_steps > 1 then
       let part1 = prod_list (take (indx + 1) num_steps);
           part2 = (if indx > 0 then prod_list (take indx num_steps) else 1);
           part3 = (if indx + 1 = length num_steps then 1
                    else prod_list (drop (indx + 1) num_steps))
       in (set_column pos_mat pos_ind (tile (map (\<lambda>q. q div part2) [0..<part1]) part3),
           pos_ind + 1)
     else (pos_mat, pos_ind))"

text \<open>The whole \<^verbatim>\<open>for\<close> loop, started with \<^verbatim>\<open>pos_ind = 0\<close>.\<close>

definition position_loop :: "nat list \<Rightarrow> nat ndarray \<Rightarrow> nat ndarray" where
  "position_loop num_steps pos_mat =
     fst (fold (position_step num_steps) (enumerate 0 num_steps) (pos_mat, 0))"

text \<open>
  \<^verbatim>\<open>np.array(num_steps)\<close> of an empty list has the type \<^verbatim>\<open>float64\<close>, so that
  \<^verbatim>\<open>np.prod(num_steps)\<close> is the float \<^verbatim>\<open>1.0\<close>, which \<^verbatim>\<open>np.zeros\<close> refuses as a number of
  rows: the call ends with a \<^verbatim>\<open>TypeError\<close>. A list with an entry gives an integer array
  and an integer product.
\<close>

definition make_position_mat :: "nat list \<Rightarrow> error + nat ndarray" where
  "make_position_mat num_steps =
     (let spat_dims = max 1 (length (filter (\<lambda>s. s > 1) num_steps))
      in if num_steps = [] then Inl TypeError
         else (let pos_mat = zeros (prod_list num_steps) spat_dims
               in Inr (position_loop num_steps pos_mat)))"

subsection \<open>Slices and slice dictionaries\<close>

text \<open>
  A Python \<^verbatim>\<open>slice\<close> with its start and stop (\<^verbatim>\<open>None\<close> when absent); the module never
  gives a step. \<open>slice1\<close> is \<^verbatim>\<open>slice(stop)\<close> and \<open>slice2\<close> is \<^verbatim>\<open>slice(start, stop)\<close>.
\<close>

datatype pyslice = Slice (slice_start: "nat option") (slice_stop: "nat option")

definition slice1 :: "nat option \<Rightarrow> pyslice" where
  "slice1 stop = Slice None stop"

definition slice2 :: "nat \<Rightarrow> nat \<Rightarrow> pyslice" where
  "slice2 start stop = Slice (Some start) (Some stop)"

text \<open>
  The positions a slice selects along an axis of length \<open>n\<close>: an absent start is 0, an
  absent stop is \<open>n\<close>, and both are clipped to \<open>n\<close>, as Python and numpy do.
\<close>

definition slice_indices :: "pyslice \<Rightarrow> nat \<Rightarrow> nat list" where
  "slice_indices s n =
     [min (case slice_start s of None \<Rightarrow> 0 | Some a \<Rightarrow> a) n
      ..< min (case slice_stop s of None \<Rightarrow> n | Some b \<Rightarrow> b) n]"

text \<open>\<^verbatim>\<open>m[rows, cols]\<close> for a pair of slices.\<close>

definition getitem :: "'a ndarray \<Rightarrow> pyslice \<times> pyslice \<Rightarrow> 'a ndarray" where
  "getitem m = (\<lambda>(rs, cs).
     \<lparr>nrows = length (slice_indices rs (nrows m)),
      ncols = length (slice_indices cs (ncols m)),
      cells = map (\<lambda>i. map (\<lambda>j. cells m ! i ! j) (slice_indices cs (ncols m)))
                  (slice_indices rs (nrows m))\<rparr>)"

type_synonym slice_dict = "(string \<times> pyslice \<times> pyslice) list"

definition get_position_slicing :: "string list \<Rightarrow> nat option \<Rightarrow> slice_dict" where
  "get_position_slicing pos_lab curr_pix =
     fold (\<lambda>(spat_ind, spat_dim) slice_dict.
             AList.update spat_dim (slice1 curr_pix, slice2 spat_ind (spat_ind + 1)) slice_dict)
          (enumerate 0 pos_lab) []"

definition get_spectral_slicing :: "string list \<Rightarrow> nat option \<Rightarrow> slice_dict" where
  "get_spectral_slicing spec_lab curr_spec =
     fold (\<lambda>(spat_ind, spat_dim) slice_dict.
             AList.update spat_dim (slice2 spat_ind (spat_ind + 1), slice1 curr_spec) slice_dict)
          (enumerate 0 spec_lab) []"

subsection \<open>Datasets and groups\<close>

datatype attr_value =
    StrAttr string
  | IntAttr int
  | FloatAttr rat
  | StrListAttr "string list"
  | SliceDictAttr slice_dict

type_synonym attrs_dict = "(string \<times> attr_value) list"

datatype dtype = UInt32 | Float32

text \<open>
  Modelled from the spec: the classes \<^verbatim>\<open>MicroDataGroup\<close> and \<^verbatim>\<open>MicroDataset\<close> of
  \<^verbatim>\<open>microdata.py\<close>, which is not among the sources. Following the spec's ContainerNode, a
  node is named and bears attributes; a group has an ordered list of children and a
  dataset holds one payload. A fresh node has no attribute and no child;
  \<^verbatim>\<open>add_children\<close> appends to the children of a group.
\<close>

datatype 'p microdata =
    MicroDataGroup (md_name: string) (md_attrs: attrs_dict) (md_children: "'p microdata list")
  | MicroDataset (md_name: string) (md_data: 'p) (md_dtype: "dtype option") (md_attrs: attrs_dict)

fun is_MicroDataset :: "'p microdata \<Rightarrow> bool" where
  "is_MicroDataset (MicroDataset n d t a) = True"
| "is_MicroDataset (MicroDataGroup n a c) = False"

fun add_children :: "'p microdata \<Rightarrow> 'p microdata list \<Rightarrow> 'p microdata" where
  "add_children (MicroDataGroup n a c) new = MicroDataGroup n a (c @ new)"
| "add_children (MicroDataset n d t a) new = MicroDataset n d t a"

fun set_attrs :: "'p microdata \<Rightarrow> attrs_dict \<Rightarrow> 'p microdata" where
  "set_attrs (MicroDataGroup n a c) a' = MicroDataGroup n a' c"
| "set_attrs (MicroDataset n d t a) a' = MicroDataset n d t a'"

text \<open>\<^verbatim>\<open>node.attrs[key] = value\<close>\<close>

definition set_attr :: "'p microdata \<Rightarrow> string \<Rightarrow> attr_value \<Rightarrow> 'p microdata" where
  "set_attr node key v = set_attrs node (AList.update key v (md_attrs node))"

subsection \<open>\<^verbatim>\<open>build_ind_val_dsets\<close>\<close>

text \<open>
  The three messages of \<^verbatim>\<open>build_ind_val_dsets\<close> are those of the source (the check of
  \<^verbatim>\<open>units\<close> raises with the message of the check of \<^verbatim>\<open>labels\<close>); \<open>broadcast_msg\<close> is
  numpy's, raised by an arithmetic operation on arrays whose shapes do not broadcast.
\<close>

definition steps_msg :: string where
  "steps_msg = ''The arrays for step sizes and dimension sizes must be the same.''"

definition initial_values_msg :: string where
  "initial_values_msg = ''The arrays for initial values and dimension sizes must be the same.''"

definition labels_msg :: string where
  "labels_msg = ''The arrays for labels and dimension sizes must be the same.''"

definition broadcast_msg :: string where
  "broadcast_msg = ''operands could not be broadcast together''"

text \<open>\<^verbatim>\<open>np.atleast_2d\<close> of a one-dimensional array: a single row.\<close>

definition atleast_2d :: "'a list \<Rightarrow> 'a ndarray" where
  "atleast_2d xs = \<lparr>nrows = 1, ncols = length xs, cells = [xs]\<rparr>"

text \<open>
  numpy's broadcasting of two two-dimensional arrays under a binary operation: along
  each axis the lengths must be equal or one of them 1, and an axis of length 1 is
  repeated.
\<close>

definition broadcast_dim :: "nat \<Rightarrow> nat \<Rightarrow> error + nat" where
  "broadcast_dim a b =
     (if a = b then Inr a else if a = 1 then Inr b else if b = 1 then Inr a
      else Inl (ValueError broadcast_msg))"

definition bcast_at :: "'a ndarray \<Rightarrow> nat \<Rightarrow> nat \<Rightarrow> 'a" where
  "bcast_at x i j = cells x ! (if nrows x = 1 then 0 else i) ! (if ncols x = 1 then 0 else j)"

definition broadcast2 ::
  "('a \<Rightarrow> 'b \<Rightarrow> 'c) \<Rightarrow> 'a ndarray \<Rightarrow> 'b ndarray \<Rightarrow> error + 'c ndarray" where
  "broadcast2 f x y =
     (case broadcast_dim (nrows x) (nrows y) of
        Inl e \<Rightarrow> Inl e
      | Inr r \<Rightarrow>
          (case broadcast_dim (ncols x) (ncols y) of
             Inl e \<Rightarrow> Inl e
           | Inr c \<Rightarrow>
               Inr \<lparr>nrows = r, ncols = c,
                    cells = map (\<lambda>i. map (\<lambda>j. f (bcast_at x i j) (bcast_at y i j)) [0..<c])
                                [0..<r]\<rparr>))"

text \<open>\<^verbatim>\<open>np.float32(indices)\<close>: an element-wise conversion.\<close>

definition astype :: "('a \<Rightarrow> 'b) \<Rightarrow> 'a ndarray \<Rightarrow> 'b ndarray" where
  "astype f m = \<lparr>nrows = nrows m, ncols = ncols m, cells = map (map f) (cells m)\<rparr>"

text \<open>The three checks that open the function, each with its default.\<close>

definition check_steps :: "nat list \<Rightarrow> rat list option \<Rightarrow> error + rat list" where
  "check_steps dimensions steps =
     (case steps of
        None \<Rightarrow> Inr (map (\<lambda>_. 1) dimensions)
      | Some s \<Rightarrow> if length s \<noteq> length dimensions then Inl (ValueError steps_msg) else Inr s)"

definition check_initial_values :: "nat list \<Rightarrow> rat list option \<Rightarrow> error + rat list" where
  "check_initial_values dimensions initial_values =
     (case initial_values of
        None \<Rightarrow> Inr (map (\<lambda>_. 0) dimensions)
      | Some v \<Rightarrow>
          if length v \<noteq> length dimensions then Inl (ValueError initial_values_msg) else Inr v)"

definition check_labels :: "nat list \<Rightarrow> string list option \<Rightarrow> error + string list" where
  "check_labels dimensions labels =
     (case labels of
        None \<Rightarrow> Inr (map (\<lambda>_. '''') dimensions)
      | Some l \<Rightarrow> if length l \<noteq> length dimensions then Inl (ValueError labels_msg) else Inr l)"

text \<open>
  Lines 320 to 345: the index matrix, the value matrix
  \<^verbatim>\<open>initial_values + np.float32(indices)*steps\<close>, the orientation and the two datasets
  with their \<^verbatim>\<open>labels\<close> attribute.
\<close>

definition build_datasets ::
  "nat list \<Rightarrow> bool \<Rightarrow> rat list \<Rightarrow> rat list \<Rightarrow> string list
   \<Rightarrow> error + (nat ndarray microdata \<times> rat ndarray microdata)" where
  "build_datasets dimensions is_spectral steps initial_values labels =
     (case make_position_mat dimensions of
        Inl e \<Rightarrow> Inl e
      | Inr indices \<Rightarrow>
     (case broadcast2 (*) (astype rat_of_nat indices) (atleast_2d steps) of
        Inl e \<Rightarrow> Inl e
      | Inr scaled \<Rightarrow>
          (case broadcast2 (+) (atleast_2d initial_values) scaled of
             Inl e \<Rightarrow> Inl e
           | Inr values \<Rightarrow>
               (let (mode, indices', values', region_slices) =
                      (if is_spectral
                       then (''Spectroscopic_'', transpose_nd indices, transpose_nd values,
                             get_spectral_slicing labels None)
                       else (''Position_'', indices, values,
                             get_position_slicing labels None));
                    ds_indices = set_attr (MicroDataset (mode @ ''Indices'') indices' (Some UInt32) [])
                                   ''labels'' (SliceDictAttr region_slices);
                    ds_values = set_attr (MicroDataset (mode @ ''Values'') values' (Some Float32) [])
                                   ''labels'' (SliceDictAttr region_slices)
                in Inr (ds_indices, ds_values)))))"

definition build_ind_val_dsets ::
  "nat list \<Rightarrow> bool \<Rightarrow> rat list option \<Rightarrow> rat list option \<Rightarrow> string list option
   \<Rightarrow> string list option \<Rightarrow> error + (nat ndarray microdata \<times> rat ndarray microdata)" where
  "build_ind_val_dsets dimensions is_spectral steps initial_values labels units =
     (case check_steps dimensions steps of
        Inl e \<Rightarrow> Inl e
      | Inr steps' \<Rightarrow>
     (case check_initial_values dimensions initial_values of
        Inl e \<Rightarrow> Inl e
      | Inr initial_values' \<Rightarrow>
     (case check_labels dimensions labels of
        Inl e \<Rightarrow> Inl e
      | Inr labels' \<Rightarrow>
     (case build_datasets dimensions is_spectral steps' initial_values' labels' of
        Inl e \<Rightarrow> Inl e
      | Inr (ds_indices, ds_values) \<Rightarrow>
          (case units of
             None \<Rightarrow> Inr (ds_indices, ds_values)
           | Some u \<Rightarrow>
               if length u \<noteq> length dimensions then Inl (ValueError labels_msg)
               else Inr (set_attr ds_indices ''units'' (StrListAttr u),
                         set_attr ds_values ''units'' (StrListAttr u)))))))"

subsection \<open>\<^verbatim>\<open>generate_dummy_main_parms\<close> and \<^verbatim>\<open>Translator.simple_write\<close>\<close>

text \<open>A dictionary filled by item assignments, in the order of the source.\<close>

definition assignments :: "(string \<times> attr_value) list \<Rightarrow> attrs_dict" where
  "assignments kvs = fold (\<lambda>(k, v) d. AList.update k v d) kvs []"

text \<open>
  The two readings of the clock, \<^verbatim>\<open>tm.strftime("%Y_%m_%d")\<close> and \<^verbatim>\<open>tm.time()\<close>, are
  arguments.
\<close>

definition generate_dummy_main_parms :: "string \<Rightarrow> rat \<Rightarrow> attrs_dict" where
  "generate_dummy_main_parms strftime_now time_now = assignments
     [(''translate_date'', StrAttr strftime_now),
      (''instrument'', StrAttr ''cypher_west''),
      (''xcams_id'', StrAttr ''abc''),
      (''user_name'', StrAttr ''John Doe''),
      (''sample_name'', StrAttr ''PZT''),
      (''sample_description'', StrAttr ''Thin Film''),
      (''project_name'', StrAttr ''Band Excitation''),
      (''project_id'', StrAttr ''CNMS_2015B_X0000''),
      (''comments'', StrAttr ''Band Excitation data''),
      (''data_tool'', StrAttr ''be_analyzer''),
      (''experiment_date'', StrAttr ''2015-10-05 14:55:05''),
      (''experiment_unix_time'', FloatAttr time_now),
      (''grid_size_x'', IntAttr 1),
      (''grid_size_y'', IntAttr 1),
      (''current_position_x'', IntAttr 1),
      (''current_position_y'', IntAttr 1)]"

text \<open>
  Lines 94 to 107 of \<^verbatim>\<open>simple_write\<close>: the tree that is handed to the writer.
\<close>

definition simple_write_tree ::
  "string \<Rightarrow> rat \<Rightarrow> string \<Rightarrow> string \<Rightarrow> 'p microdata \<Rightarrow> 'p microdata list
   \<Rightarrow> attrs_dict option \<Rightarrow> 'p microdata" where
  "simple_write_tree strftime_now time_now data_name translator_name ds_main aux_dset_list parm_dict =
     (let parm_dict = (case parm_dict of None \<Rightarrow> [] | Some d \<Rightarrow> d);
          chan_grp = MicroDataGroup ''Channel_000'' [] [];
          chan_grp = add_children chan_grp [ds_main];
          chan_grp = add_children chan_grp aux_dset_list;
          meas_grp = MicroDataGroup ''Measurement_000'' [] [];
          meas_grp = set_attrs meas_grp parm_dict;
          meas_grp = add_children meas_grp [chan_grp];
          spm_data = MicroDataGroup '''' [] [];
          global_parms = generate_dummy_main_parms strftime_now time_now;
          global_parms = AList.update ''data_type'' (StrAttr data_name) global_parms;
          global_parms = AList.update ''translator'' (StrAttr translator_name) global_parms;
          spm_data = set_attrs spm_data global_parms;
          spm_data = add_children spm_data [meas_grp]
      in spm_data)"

text \<open>
  The collaborators of \<^verbatim>\<open>simple_write\<close> that are outside this module: the clock, the
  file system, the HDF5 writer \<^verbatim>\<open>ioHDF5\<close> and the two helpers of \<^verbatim>\<open>hdf_utils\<close>. They are
  parameters, acting on a state \<open>'w\<close> of the outside world; each of them may raise.
  \<open>'r\<close> is the type of the references the writer returns.
\<close>

record ('w, 'p, 'r) collaborators =
  tm_strftime :: "'w \<Rightarrow> string"
  tm_time :: "'w \<Rightarrow> rat"
  path_exists :: "'w \<Rightarrow> string \<Rightarrow> bool"
  os_remove :: "'w \<Rightarrow> string \<Rightarrow> error + 'w"
  ioHDF5 :: "'w \<Rightarrow> string \<Rightarrow> error + 'w"
  hdf_writeData :: "'w \<Rightarrow> 'p microdata \<Rightarrow> error + 'r list \<times> 'w"
  get_h5_obj_refs :: "string list \<Rightarrow> 'r list \<Rightarrow> error + 'r list"
  link_h5_objects_as_attrs :: "'w \<Rightarrow> 'r \<Rightarrow> 'r list \<Rightarrow> error + 'w"
  hdf_close :: "'w \<Rightarrow> error + 'w"

text \<open>Sequencing of steps that may raise: the first exception ends the call.\<close>

definition and_then :: "error + 'a \<Rightarrow> ('a \<Rightarrow> error + 'b) \<Rightarrow> error + 'b" where
  "and_then r f = (case r of Inl e \<Rightarrow> Inl e | Inr x \<Rightarrow> f x)"

definition simple_write ::
  "('w, 'p, 'r) collaborators \<Rightarrow> 'w \<Rightarrow> string \<Rightarrow> string \<Rightarrow> string \<Rightarrow> 'p microdata
   \<Rightarrow> 'p microdata list \<Rightarrow> attrs_dict option \<Rightarrow> error + string \<times> 'w" where
  "simple_write env w0 h5_path data_name translator_name ds_main aux_dset_list parm_dict =
     (let spm_data = simple_write_tree (tm_strftime env w0) (tm_time env w0)
                       data_name translator_name ds_main aux_dset_list parm_dict;
          aux_dset_names = map md_name (filter is_MicroDataset aux_dset_list)
      in
      and_then (if path_exists env w0 h5_path then os_remove env w0 h5_path else Inr w0) (\<lambda>w1.
      and_then (ioHDF5 env w1 h5_path) (\<lambda>w2.
      and_then (hdf_writeData env w2 spm_data) (\<lambda>(h5_refs, w3).
      and_then (get_h5_obj_refs env [md_name ds_main] h5_refs) (\<lambda>main_refs.
      and_then (case main_refs of [] \<Rightarrow> Inl IndexError | h5_raw # _ \<Rightarrow> Inr h5_raw) (\<lambda>h5_raw.
      and_then (get_h5_obj_refs env aux_dset_names h5_refs) (\<lambda>aux_refs.
      and_then (link_h5_objects_as_attrs env w3 h5_raw aux_refs) (\<lambda>w4.
      and_then (hdf_close env w4) (\<lambda>w5.
      Inr (h5_path, w5))))))))))"

section \<open>Vocabulary of the specification\<close>

text \<open>
  The closed form of the specification: the index of axis \<open>i\<close> at row \<open>r\<close> is
  \<open>floor((r mod part1) / part2)\<close> with \<open>part1\<close> the product of the sizes up to and
  including \<open>i\<close> and \<open>part2\<close> the product of the sizes before \<open>i\<close>.
\<close>

definition index_formula :: "nat list \<Rightarrow> nat \<Rightarrow> nat \<Rightarrow> nat" where
  "index_formula sizes i r =
     (r mod prod_list (take (Suc i) sizes)) div prod_list (take i sizes)"

text \<open>The active axes (size above 1) among the first \<open>k\<close>, in order.\<close>

definition active_upto :: "nat list \<Rightarrow> nat \<Rightarrow> nat list" where
  "active_upto sizes k = filter (\<lambda>i. sizes ! i > 1) [0..<k]"

text \<open>The output column of axis \<open>i\<close>: the number of active axes before it.\<close>

definition output_column :: "nat list \<Rightarrow> nat \<Rightarrow> nat" where
  "output_column sizes i = length (filter (\<lambda>s. s > 1) (take i sizes))"

text \<open>
  The rows of the matrix once the loop has handled the first \<open>k\<close> axes: the columns of
  the active axes among them, then zeros.
\<close>

definition partial_rows :: "nat list \<Rightarrow> nat \<Rightarrow> nat \<Rightarrow> nat \<Rightarrow> nat list list" where
  "partial_rows sizes k P C =
     map (\<lambda>r. map (\<lambda>i. index_formula sizes i r) (active_upto sizes k)
               @ replicate (C - length (active_upto sizes k)) 0) [0..<P]"

text \<open>A well-formed array: the rows and their lengths agree with the shape.\<close>

definition wf_ndarray :: "'a ndarray \<Rightarrow> bool" where
  "wf_ndarray m \<longleftrightarrow> length (cells m) = nrows m \<and> (\<forall>row \<in> set (cells m). length row = ncols m)"

text \<open>
  The matrix that \<^verbatim>\<open>make_position_mat\<close> returns for a list with an entry.
\<close>

definition position_mat :: "nat list \<Rightarrow> nat ndarray" where
  "position_mat sizes =
     position_loop sizes
       (zeros (prod_list sizes) (max 1 (length (filter (\<lambda>s. s > 1) sizes))))"

text \<open>
  The value matrix of \<^verbatim>\<open>build_ind_val_dsets\<close>,
  \<^verbatim>\<open>initial_values + np.float32(indices)*steps\<close>, on its own.
\<close>

definition value_matrix :: "nat list \<Rightarrow> rat list \<Rightarrow> rat list \<Rightarrow> error + rat ndarray" where
  "value_matrix dimensions steps initial_values =
     (case broadcast2 (*) (astype rat_of_nat (position_mat dimensions)) (atleast_2d steps) of
        Inl e \<Rightarrow> Inl e
      | Inr scaled \<Rightarrow> broadcast2 (+) (atleast_2d initial_values) scaled)"

text \<open>An optional per-axis array that is supplied with a length other than \<open>n\<close>.\<close>

definition bad_length :: "'a list option \<Rightarrow> nat \<Rightarrow> bool" where
  "bad_length x n = (case x of None \<Rightarrow> False | Some a \<Rightarrow> length a \<noteq> n)"

text \<open>The length-mismatch errors of \<^verbatim>\<open>build_ind_val_dsets\<close>.\<close>

definition is_length_error :: "error \<Rightarrow> bool" where
  "is_length_error e \<longleftrightarrow>
     e = ValueError steps_msg \<or> e = ValueError initial_values_msg \<or> e = ValueError labels_msg"

text \<open>
  Collaborators that always succeed, to run \<^verbatim>\<open>simple_write\<close> on: the world is the list of
  the files that exist, the writer returns the names of two datasets as references, and
  \<^verbatim>\<open>get_h5_obj_refs\<close> keeps the references that are among the names asked for.
\<close>

definition plain_collaborators :: "(string list, unit, string) collaborators" where
  "plain_collaborators =
     \<lparr>tm_strftime = (\<lambda>w. ''2015_11_03''),
      tm_time = (\<lambda>w. 0),
      path_exists = (\<lambda>w p. p \<in> set w),
      os_remove = (\<lambda>w p. Inr (removeAll p w)),
      ioHDF5 = (\<lambda>w p. Inr (p # w)),
      hdf_writeData = (\<lambda>w tree. Inr ([''Raw_Data'', ''Position_Indices''], w)),
      get_h5_obj_refs = (\<lambda>names refs. Inr (filter (\<lambda>r. r \<in> set names) refs)),
      link_h5_objects_as_attrs = (\<lambda>w h5_raw refs. Inr w),
      hdf_close = (\<lambda>w. Inr w)\<rparr>"

section \<open>The index matrix in closed form\<close>

subsection \<open>Tiling and products\<close>

lemma tile_length: "length (tile a n) = n * length a"
  by (induction n) (simp_all add: tile_def)

lemma tile_nth: "r < n * length a \<Longrightarrow> tile a n ! r = a ! (r mod length a)"
proof (induction n arbitrary: r)
  case 0
  then show ?case by simp
next
  case (Suc n)
  show ?case
  proof (cases "r < length a")
    case True
    then show ?thesis by (simp add: tile_def nth_append)
  next
    case False
    then have "r - length a < n * length a"
      using Suc.prems by simp
    from Suc.IH [OF this] False show ?thesis
      by (simp add: tile_def nth_append le_mod_geq)
  qed
qed

lemma prod_list_split:
  "prod_list (take (Suc i) sizes) * prod_list (drop (Suc i) sizes) = prod_list (sizes :: nat list)"
  by (metis append_take_drop_id prod_list.append)

text \<open>
  The column assigned for axis \<open>i\<close> has one entry per row of the matrix, so
  \<^verbatim>\<open>pos_mat[:, pos_ind] = ...\<close> never has to broadcast and never raises.
\<close>

lemma loop_column_length:
  "length (tile (map (\<lambda>q. q div part2) [0..<prod_list (take (Suc i) sizes)])
                (prod_list (drop (Suc i) sizes))) = prod_list sizes"
  using prod_list_split [of i sizes] by (simp add: tile_length mult.commute)

lemma column_nth:
  assumes "r < part1 * part3"
  shows "tile (map (\<lambda>q. q div part2) [0..<part1]) part3 ! r = (r mod part1) div part2"
proof -
  have p: "0 < part1"
    using assms by (cases part1) auto
  have "tile (map (\<lambda>q. q div part2) [0..<part1]) part3 ! r
        = map (\<lambda>q. q div part2) [0..<part1] ! (r mod part1)"
    using assms by (subst tile_nth) (simp_all add: mult.commute)
  also have "\<dots> = (r mod part1) div part2"
    using p by simp
  finally show ?thesis .
qed

subsection \<open>Active axes\<close>

lemma active_upto_Suc:
  "active_upto sizes (Suc k) =
     (if sizes ! k > 1 then active_upto sizes k @ [k] else active_upto sizes k)"
  by (simp add: active_upto_def)

lemma active_upto_mono:
  "k \<le> n \<Longrightarrow> length (active_upto sizes k) \<le> length (active_upto sizes n)"
proof (induction n)
  case 0
  then show ?case by simp
next
  case (Suc n)
  then show ?case
    by (cases "k = Suc n") (auto simp: active_upto_Suc)
qed

lemma output_column_eq:
  assumes "i \<le> length sizes"
  shows "output_column sizes i = length (active_upto sizes i)"
proof -
  have "take i sizes = map ((!) sizes) [0..<i]"
    using assms by (intro nth_equalityI) simp_all
  then have "filter (\<lambda>s. s > 1) (take i sizes) = map ((!) sizes) (active_upto sizes i)"
    by (simp add: active_upto_def filter_map comp_def)
  then show ?thesis
    by (simp add: output_column_def)
qed

lemma length_active_upto:
  "length (active_upto sizes (length sizes)) = length (filter (\<lambda>s. s > 1) sizes)"
  using output_column_eq [of "length sizes" sizes] by (simp add: output_column_def)

lemma active_upto_nth:
  assumes "i < n" and "sizes ! i > 1"
  shows "length (active_upto sizes i) < length (active_upto sizes n)
         \<and> active_upto sizes n ! length (active_upto sizes i) = i"
proof -
  have "[0..<n] = [0..<i] @ i # [Suc i..<n]"
    using assms(1) by (metis le_add2 le_add_same_cancel2 less_imp_add_positive upt_add_eq_append upt_conv_Cons)
  then have "active_upto sizes n
             = active_upto sizes i @ i # filter (\<lambda>j. sizes ! j > 1) [Suc i..<n]"
    using assms(2) by (simp add: active_upto_def)
  then show ?thesis by simp
qed

subsection \<open>The loop\<close>

lemma set_column_map:
  assumes "length col = P"
  shows "set_column \<lparr>nrows = P, ncols = C, cells = map f [0..<P]\<rparr> j col
         = \<lparr>nrows = P, ncols = C, cells = map (\<lambda>r. (f r)[j := col ! r]) [0..<P]\<rparr>"
  using assms by (auto simp: set_column_def intro!: nth_equalityI)

lemma update_padding:
  assumes "c < C" and "length xs = c"
  shows "(xs @ replicate (C - c) z)[c := v] = xs @ [v] @ replicate (C - Suc c) z"
proof -
  from assms(1) have "C - c = Suc (C - Suc c)" by simp
  then show ?thesis using assms(2) by (simp add: list_update_append)
qed

lemma loop_invariant:
  assumes "k \<le> length sizes" and "length (active_upto sizes (length sizes)) \<le> C"
  shows "fold (position_step sizes) (take k (enumerate 0 sizes)) (zeros (prod_list sizes) C, 0)
         = (\<lparr>nrows = prod_list sizes, ncols = C,
              cells = partial_rows sizes k (prod_list sizes) C\<rparr>,
            length (active_upto sizes k))"
  using assms(1)
proof (induction k)
  case 0
  show ?case
    by (simp add: zeros_def partial_rows_def active_upto_def map_replicate_const)
next
  case (Suc k)
  let ?P = "prod_list sizes"
  let ?c = "length (active_upto sizes k)"
  let ?before = "\<lparr>nrows = ?P, ncols = C, cells = partial_rows sizes k ?P C\<rparr>"
  from Suc.prems have k: "k < length sizes" by simp
  have tk: "take (Suc k) (enumerate 0 sizes) = take k (enumerate 0 sizes) @ [(k, sizes ! k)]"
    using k by (simp add: take_Suc_conv_app_nth nth_enumerate_eq)
  have IH: "fold (position_step sizes) (take k (enumerate 0 sizes)) (zeros ?P C, 0)
            = (?before, ?c)"
    using Suc.IH k by simp
  have unroll: "fold (position_step sizes) (take (Suc k) (enumerate 0 sizes)) (zeros ?P C, 0)
                = position_step sizes (k, sizes ! k) (?before, ?c)"
    unfolding tk fold_append comp_def IH by simp
  show ?case
  proof (cases "sizes ! k > 1")
    case False
    then have "position_step sizes (k, sizes ! k) (?before, ?c) = (?before, ?c)"
      by (simp add: position_step_def)
    with False show ?thesis
      unfolding unroll by (simp add: active_upto_Suc partial_rows_def)
  next
    case True
    have cC: "?c < C"
    proof -
      have "length (active_upto sizes (Suc k)) \<le> length (active_upto sizes (length sizes))"
        using k by (intro active_upto_mono) simp
      then show ?thesis
        using True assms(2) by (simp add: active_upto_Suc)
    qed
    let ?part1 = "prod_list (take (Suc k) sizes)"
    let ?part2 = "prod_list (take k sizes)"
    let ?part3 = "prod_list (drop (Suc k) sizes)"
    let ?col = "tile (map (\<lambda>q. q div ?part2) [0..<?part1]) ?part3"
    have p2: "(if k > 0 then prod_list (take k sizes) else 1) = ?part2"
      by simp
    have p3: "(if k + 1 = length sizes then 1 else prod_list (drop (k + 1) sizes)) = ?part3"
      by simp
    have P: "?part1 * ?part3 = ?P"
      by (rule prod_list_split)
    have len: "length ?col = ?P"
      by (rule loop_column_length)
    have step: "position_step sizes (k, sizes ! k) (?before, ?c)
                = (set_column ?before ?c ?col, Suc ?c)"
      using True p2 p3 by (simp add: position_step_def Let_def)
    have rows: "set_column ?before ?c ?col
                = \<lparr>nrows = ?P, ncols = C, cells = partial_rows sizes (Suc k) ?P C\<rparr>"
    proof -
      have "\<And>r. r < ?P \<Longrightarrow> ?col ! r = index_formula sizes k r"
        using P by (simp add: column_nth index_formula_def)
      moreover have "\<And>xs v. length xs = ?c \<Longrightarrow>
          (xs @ replicate (C - ?c) 0)[?c := v] = xs @ [v] @ replicate (C - Suc ?c) (0::nat)"
        using cC by (rule update_padding)
      ultimately show ?thesis
        unfolding partial_rows_def using len True
        by (subst set_column_map) (simp_all add: active_upto_Suc)
    qed
    show ?thesis
      unfolding unroll step rows using True by (simp add: active_upto_Suc)
  qed
qed

text \<open>
  The whole function: the matrix has one row per combination, and row \<open>r\<close> lists the
  closed-form indices of the active axes, or a single zero when no axis is active.
\<close>

lemma position_mat_eq:
  "position_mat sizes =
     \<lparr>nrows = prod_list sizes,
      ncols = max 1 (length (filter (\<lambda>s. s > 1) sizes)),
      cells = partial_rows sizes (length sizes) (prod_list sizes)
                (max 1 (length (filter (\<lambda>s. s > 1) sizes)))\<rparr>"
proof -
  let ?C = "max 1 (length (filter (\<lambda>s. s > 1) sizes))"
  have "length (active_upto sizes (length sizes)) \<le> ?C"
    by (simp add: length_active_upto)
  from loop_invariant [OF le_refl this] show ?thesis
    by (simp add: position_mat_def position_loop_def)
qed

lemma make_position_mat_Inr:
  "sizes \<noteq> [] \<Longrightarrow> make_position_mat sizes = Inr (position_mat sizes)"
  by (simp add: make_position_mat_def position_mat_def)

lemma make_position_mat_Nil: "make_position_mat [] = Inl TypeError"
  by (simp add: make_position_mat_def)

lemma make_position_mat_cases:
  "make_position_mat sizes = (if sizes = [] then Inl TypeError else Inr (position_mat sizes))"
  by (simp add: make_position_mat_def position_mat_def)


lemma position_mat_nth:
  assumes "i < length sizes" and "sizes ! i > 1" and "r < prod_list sizes"
  shows "cells (position_mat sizes) ! r ! output_column sizes i = index_formula sizes i r"
proof -
  let ?A = "active_upto sizes (length sizes)"
  have c: "output_column sizes i = length (active_upto sizes i)"
    using assms(1) by (simp add: output_column_eq)
  from active_upto_nth [OF assms(1,2)]
  have lt: "length (active_upto sizes i) < length ?A"
    and at: "?A ! length (active_upto sizes i) = i"
    by simp_all
  show ?thesis
    using assms(3) lt at by (simp add: position_mat_eq partial_rows_def c nth_append)
qed

lemma position_mat_wf: "wf_ndarray (position_mat sizes)"
  by (auto simp: wf_ndarray_def position_mat_eq partial_rows_def length_active_upto)

lemma position_mat_singletons:
  assumes "\<forall>s \<in> set sizes. s = 1"
  shows "position_mat sizes = \<lparr>nrows = 1, ncols = 1, cells = [[0]]\<rparr>"
proof -
  have f: "filter (\<lambda>s. s > 1) sizes = []"
    using assms by (auto simp: filter_empty_conv)
  have p: "prod_list sizes = 1"
    using assms by (induction sizes) auto
  have "length (active_upto sizes (length sizes)) = 0"
    using f by (simp add: length_active_upto)
  then have a: "active_upto sizes (length sizes) = []"
    by simp
  have "position_mat sizes = \<lparr>nrows = 1, ncols = max 1 0, cells = partial_rows sizes (length sizes) 1 (max 1 0)\<rparr>"
    unfolding position_mat_eq f p by simp
  then show ?thesis
    by (simp add: partial_rows_def a)
qed

section \<open>The specification on \<^verbatim>\<open>make_position_mat\<close>\<close>

text \<open>
  C1. \<^verbatim>\<open>make_position_mat\<close> implements the closed-form index formula: for every
  sequence of axis sizes (fastest-varying first), every active axis \<open>i\<close> (size above 1) and
  every row \<open>r\<close>, the entry at row \<open>r\<close> of that axis's output column is
  \<open>floor((r mod part1) / part2)\<close>, with \<open>part1\<close> the product of the sizes up to and
  including \<open>i\<close> and \<open>part2\<close> the product of the sizes before \<open>i\<close>. For the sizes
  \<open>[3, 2]\<close> the result has 6 rows and 2 columns, column 0 being \<open>[0,1,2,0,1,2]\<close> and
  column 1 being \<open>[0,0,0,1,1,1]\<close>.
\<close>

theorem make_position_mat_closed_form:
  "(\<forall>i r. i < length sizes \<longrightarrow> sizes ! i > 1 \<longrightarrow> r < prod_list sizes \<longrightarrow>
      (\<exists>m. make_position_mat sizes = Inr m
         \<and> cells m ! r ! output_column sizes i
           = (r mod prod_list (take (i + 1) sizes)) div prod_list (take i sizes)))
   \<and> make_position_mat [3, 2]
       = Inr \<lparr>nrows = 6, ncols = 2, cells = [[0, 0], [1, 0], [2, 0], [0, 1], [1, 1], [2, 1]]\<rparr>
   \<and> (\<exists>m. make_position_mat [3, 2] = Inr m
         \<and> map (\<lambda>row. row ! 0) (cells m) = [0, 1, 2, 0, 1, 2]
         \<and> map (\<lambda>row. row ! 1) (cells m) = [0, 0, 0, 1, 1, 1])"
proof -
  have general: "\<forall>i r. i < length sizes \<longrightarrow> sizes ! i > 1 \<longrightarrow> r < prod_list sizes \<longrightarrow>
      (\<exists>m. make_position_mat sizes = Inr m
         \<and> cells m ! r ! output_column sizes i
           = (r mod prod_list (take (i + 1) sizes)) div prod_list (take i sizes))"
  proof (intro allI impI)
    fix i r
    assume h: "i < length sizes" "sizes ! i > 1" "r < prod_list sizes"
    then have "sizes \<noteq> []"
      by auto
    then have "make_position_mat sizes = Inr (position_mat sizes)"
      by (rule make_position_mat_Inr)
    moreover have "cells (position_mat sizes) ! r ! output_column sizes i
        = (r mod prod_list (take (i + 1) sizes)) div prod_list (take i sizes)"
      using position_mat_nth [OF h] by (simp add: index_formula_def)
    ultimately show "\<exists>m. make_position_mat sizes = Inr m
         \<and> cells m ! r ! output_column sizes i
           = (r mod prod_list (take (i + 1) sizes)) div prod_list (take i sizes)"
      by blast
  qed
  have scenario: "make_position_mat [3, 2]
       = Inr \<lparr>nrows = 6, ncols = 2, cells = [[0, 0], [1, 0], [2, 0], [0, 1], [1, 1], [2, 1]]\<rparr>"
    by code_simp
  show ?thesis
    using general by (simp add: scenario)
qed

theorem make_position_mat_closed_form_witness:
  "(1::nat) < length [3, 2 :: nat] \<and> [3, 2 :: nat] ! 1 > 1 \<and> (4::nat) < prod_list [3, 2]
   \<and> output_column [3, 2] 1 = 1
   \<and> (\<exists>m. make_position_mat [3, 2] = Inr m \<and> cells m ! 4 ! 1 = 1)"
proof -
  have h: "(1::nat) < length [3, 2 :: nat] \<and> [3, 2 :: nat] ! 1 > 1 \<and> (4::nat) < prod_list [3, 2]"
    by simp
  have c: "output_column [3, 2] 1 = 1"
    by (simp add: output_column_def)
  from make_position_mat_closed_form [of "[3, 2]"] h
  have "\<exists>m. make_position_mat [3, 2] = Inr m
        \<and> cells m ! 4 ! output_column [3, 2] 1
          = (4 mod prod_list (take (1 + 1) [3, 2])) div prod_list (take 1 [3, 2])"
    by blast
  then have "\<exists>m. make_position_mat [3, 2] = Inr m \<and> cells m ! 4 ! 1 = 1"
    unfolding c by simp
  then show ?thesis
    using h c by simp
qed

section \<open>The two datasets\<close>

lemma build_datasets_eq:
  "build_datasets dims sp s i l =
     (if dims = [] then Inl TypeError
      else case value_matrix dims s i of
        Inl e \<Rightarrow> Inl e
      | Inr values \<Rightarrow>
          Inr (MicroDataset (if sp then ''Spectroscopic_Indices'' else ''Position_Indices'')
                 (if sp then transpose_nd (position_mat dims) else position_mat dims)
                 (Some UInt32)
                 [(''labels'', SliceDictAttr (if sp then get_spectral_slicing l None
                                               else get_position_slicing l None))],
               MicroDataset (if sp then ''Spectroscopic_Values'' else ''Position_Values'')
                 (if sp then transpose_nd values else values)
                 (Some Float32)
                 [(''labels'', SliceDictAttr (if sp then get_spectral_slicing l None
                                               else get_position_slicing l None))]))"
  by (simp add: build_datasets_def make_position_mat_cases value_matrix_def Let_def
        set_attr_def split: sum.splits)

lemma build_datasets_Inr:
  assumes "build_datasets dims sp s i l = Inr (di, dv)"
  shows "\<exists>values. dims \<noteq> [] \<and> value_matrix dims s i = Inr values
           \<and> md_data di = (if sp then transpose_nd (position_mat dims)
                           else position_mat dims)
           \<and> md_data dv = (if sp then transpose_nd values else values)
           \<and> md_attrs di = [(''labels'', SliceDictAttr (if sp then get_spectral_slicing l None
                                                         else get_position_slicing l None))]
           \<and> md_attrs dv = md_attrs di"
  using assms unfolding build_datasets_eq by (auto split: sum.splits if_splits)

lemma build_datasets_mode:
  "build_datasets dims True s i l = Inl e \<longleftrightarrow> build_datasets dims False s i l = Inl e"
  unfolding build_datasets_eq by (auto split: sum.splits)

lemma md_data_set_attr [simp]: "md_data (set_attr (MicroDataset n d t a) k v) = d"
  by (simp add: set_attr_def)

lemma md_attrs_set_attr [simp]:
  "md_attrs (set_attr (MicroDataset n d t a) k v) = AList.update k v a"
  by (simp add: set_attr_def)

lemma md_name_set_attr [simp]: "md_name (set_attr (MicroDataset n d t a) k v) = n"
  by (simp add: set_attr_def)

text \<open>What a successful call returns, whatever the arguments.\<close>

lemma build_ind_val_dsets_Inr:
  assumes "build_ind_val_dsets dims sp st iv lb un = Inr (di, dv)"
  shows "\<exists>s i l bi bv. check_steps dims st = Inr s \<and> check_initial_values dims iv = Inr i
           \<and> check_labels dims lb = Inr l \<and> \<not> bad_length un (length dims)
           \<and> build_datasets dims sp s i l = Inr (bi, bv)
           \<and> md_data di = md_data bi \<and> md_data dv = md_data bv
           \<and> md_name di = md_name bi \<and> md_name dv = md_name bv
           \<and> md_attrs di = (case un of None \<Rightarrow> md_attrs bi
                             | Some u \<Rightarrow> AList.update ''units'' (StrListAttr u) (md_attrs bi))
           \<and> md_attrs dv = (case un of None \<Rightarrow> md_attrs bv
                             | Some u \<Rightarrow> AList.update ''units'' (StrListAttr u) (md_attrs bv))"
proof -
  from assms obtain s i l bi bv where
    c: "check_steps dims st = Inr s" "check_initial_values dims iv = Inr i"
       "check_labels dims lb = Inr l" "build_datasets dims sp s i l = Inr (bi, bv)"
    and r: "(case un of None \<Rightarrow> Inr (bi, bv)
             | Some u \<Rightarrow> if length u \<noteq> length dims then Inl (ValueError labels_msg)
                         else Inr (set_attr bi ''units'' (StrListAttr u),
                                   set_attr bv ''units'' (StrListAttr u))) = Inr (di, dv)"
    unfolding build_ind_val_dsets_def by (auto split: sum.splits)
  from c(4) obtain n1 d1 a1 n2 d2 a2 where
    b: "bi = MicroDataset n1 d1 (Some UInt32) a1" "bv = MicroDataset n2 d2 (Some Float32) a2"
    unfolding build_datasets_eq by (auto split: sum.splits if_splits)
  from r b have "\<not> bad_length un (length dims)
      \<and> md_data di = md_data bi \<and> md_data dv = md_data bv
      \<and> md_name di = md_name bi \<and> md_name dv = md_name bv
      \<and> md_attrs di = (case un of None \<Rightarrow> md_attrs bi
                        | Some u \<Rightarrow> AList.update ''units'' (StrListAttr u) (md_attrs bi))
      \<and> md_attrs dv = (case un of None \<Rightarrow> md_attrs bv
                        | Some u \<Rightarrow> AList.update ''units'' (StrListAttr u) (md_attrs bv))"
    by (cases un) (auto simp: bad_length_def split: if_splits)
  with c show ?thesis by blast
qed

lemma build_ind_val_dsets_data:
  assumes "build_ind_val_dsets dims sp st iv lb un = Inr (di, dv)"
  shows "dims \<noteq> []
         \<and> md_data di = (if sp then transpose_nd (position_mat dims) else position_mat dims)"
  using build_ind_val_dsets_Inr [OF assms] build_datasets_Inr by fastforce

lemma position_mat_dims:
  "nrows (position_mat sizes) = prod_list sizes"
  "ncols (position_mat sizes) = max 1 (length (filter (\<lambda>s. s > 1) sizes))"
  by (simp_all add: position_mat_eq)

subsection \<open>Transposition, entry by entry\<close>

lemma transpose_nd_shape [simp]:
  "nrows (transpose_nd m) = ncols m" "ncols (transpose_nd m) = nrows m"
  by (simp_all add: transpose_nd_def)

lemma transpose_nd_nth:
  assumes "wf_ndarray m" and "r < nrows m" and "k < ncols m"
  shows "cells (transpose_nd m) ! k ! r = cells m ! r ! k"
  using assms by (simp add: transpose_nd_def wf_ndarray_def)

lemma transpose_nd_wf:
  assumes "wf_ndarray m"
  shows "wf_ndarray (transpose_nd m)"
  using assms by (simp add: transpose_nd_def wf_ndarray_def)

lemma broadcast2_wf:
  assumes "broadcast2 f x y = Inr m"
  shows "wf_ndarray m"
  using assms by (auto simp: broadcast2_def wf_ndarray_def split: sum.splits)

lemma value_matrix_wf:
  assumes "value_matrix dims s i = Inr v"
  shows "wf_ndarray v"
  using assms by (auto simp: value_matrix_def split: sum.splits dest: broadcast2_wf)

section \<open>The specification on the shape and the orientation\<close>

text \<open>
  C2, as stated: for every sequence of axis sizes, the position-mode index matrix
  produced by \<^verbatim>\<open>make_position_mat\<close> has exactly \<open>product(sizes)\<close> rows and one column
  per axis of size above 1; when every axis has size 1 the result is a single row with a
  single zero column. For the empty list, whose product is 1 and whose axes all have size
  1, no matrix is produced: the call ends with numpy's \<^verbatim>\<open>TypeError\<close>.
\<close>

theorem make_position_mat_empty_counterexample:
  "make_position_mat [] = Inl TypeError \<and> prod_list ([] :: nat list) = 1"
  by (simp add: make_position_mat_Nil)

text \<open>
  C2, amended: for every non-empty sequence of axis sizes, \<^verbatim>\<open>make_position_mat\<close> returns
  a position-mode index matrix with exactly \<open>product(sizes)\<close> rows and one column per
  axis of size above 1, the axes of size 1 contributing no column; when every axis has
  size 1 the result is a single row with a single zero column; and in spectroscopic mode
  the point count \<open>product(sizes)\<close> is the column count instead, entry \<open>[k][r]\<close> of the
  spectroscopic index matrix being entry \<open>[r][k]\<close> of the position-mode one.
\<close>

theorem make_position_mat_shape:
  assumes "sizes \<noteq> []"
  shows "\<exists>m. make_position_mat sizes = Inr m
     \<and> nrows m = prod_list sizes
     \<and> length (cells m) = prod_list sizes
     \<and> ncols m = (if \<exists>s \<in> set sizes. s > 1 then length (filter (\<lambda>s. s > 1) sizes) else 1)
     \<and> (\<forall>row \<in> set (cells m). length row = ncols m)
     \<and> ((\<forall>s \<in> set sizes. s = 1) \<longrightarrow> m = \<lparr>nrows = 1, ncols = 1, cells = [[0]]\<rparr>)
     \<and> (\<forall>st iv lb un di dv.
           build_ind_val_dsets sizes False st iv lb un = Inr (di, dv) \<longrightarrow>
             md_data di = m
             \<and> nrows (md_data di) = prod_list sizes \<and> ncols (md_data di) = ncols m)
     \<and> (\<forall>st iv lb un di dv.
           build_ind_val_dsets sizes True st iv lb un = Inr (di, dv) \<longrightarrow>
             ncols (md_data di) = prod_list sizes \<and> nrows (md_data di) = ncols m
             \<and> (\<forall>r k. r < prod_list sizes \<longrightarrow> k < ncols m \<longrightarrow>
                   cells (md_data di) ! k ! r = cells m ! r ! k))"
proof -
  let ?m = "position_mat sizes"
  have ret: "make_position_mat sizes = Inr ?m"
    using assms by (rule make_position_mat_Inr)
  have cols: "ncols ?m
       = (if \<exists>s \<in> set sizes. s > 1 then length (filter (\<lambda>s. s > 1) sizes) else 1)"
  proof (cases "\<exists>s \<in> set sizes. s > 1")
    case True
    then have "filter (\<lambda>s. s > 1) sizes \<noteq> []"
      by (simp add: filter_empty_conv)
    then have "1 \<le> length (filter (\<lambda>s. s > 1) sizes)"
      by (cases "filter (\<lambda>s. s > 1) sizes") simp_all
    with True show ?thesis
      by (simp add: position_mat_dims max_def)
  next
    case False
    then have "filter (\<lambda>s. s > 1) sizes = []"
      by (auto simp: filter_empty_conv)
    with False show ?thesis
      by (simp add: position_mat_dims)
  qed
  have wf: "wf_ndarray ?m"
    by (rule position_mat_wf)
  then have wf': "length (cells ?m) = prod_list sizes
      \<and> (\<forall>row \<in> set (cells ?m). length row = ncols ?m)"
    by (simp add: wf_ndarray_def position_mat_dims)
  have ones: "(\<forall>s \<in> set sizes. s = 1) \<longrightarrow> ?m = \<lparr>nrows = 1, ncols = 1, cells = [[0]]\<rparr>"
    using position_mat_singletons [of sizes] by blast
  have pos: "\<forall>st iv lb un di dv.
         build_ind_val_dsets sizes False st iv lb un = Inr (di, dv) \<longrightarrow>
           md_data di = ?m
           \<and> nrows (md_data di) = prod_list sizes \<and> ncols (md_data di) = ncols ?m"
    by (auto dest!: build_ind_val_dsets_data simp: position_mat_dims)
  have spec: "\<forall>st iv lb un di dv.
         build_ind_val_dsets sizes True st iv lb un = Inr (di, dv) \<longrightarrow>
           ncols (md_data di) = prod_list sizes \<and> nrows (md_data di) = ncols ?m
           \<and> (\<forall>r k. r < prod_list sizes \<longrightarrow> k < ncols ?m \<longrightarrow>
                 cells (md_data di) ! k ! r = cells ?m ! r ! k)"
  proof (intro allI impI)
    fix st iv lb un di dv
    assume "build_ind_val_dsets sizes True st iv lb un = Inr (di, dv)"
    then have d: "md_data di = transpose_nd ?m"
      by (auto dest!: build_ind_val_dsets_data)
    have "\<forall>r k. r < prod_list sizes \<longrightarrow> k < ncols ?m \<longrightarrow>
            cells (transpose_nd ?m) ! k ! r = cells ?m ! r ! k"
      using transpose_nd_nth [OF wf] by (simp add: position_mat_dims(1))
    then show "ncols (md_data di) = prod_list sizes \<and> nrows (md_data di) = ncols ?m
           \<and> (\<forall>r k. r < prod_list sizes \<longrightarrow> k < ncols ?m \<longrightarrow>
                 cells (md_data di) ! k ! r = cells ?m ! r ! k)"
      unfolding d by (simp add: position_mat_dims(1))
  qed
  have "nrows ?m = prod_list sizes"
    by (rule position_mat_dims)
  with ret cols wf' ones pos spec show ?thesis
    by blast
qed

theorem make_position_mat_shape_witness:
  "[1, 1 :: nat] \<noteq> []
   \<and> make_position_mat [1, 1] = Inr \<lparr>nrows = 1, ncols = 1, cells = [[0]]\<rparr>
   \<and> (\<exists>s \<in> set [1, 5 :: nat]. s > 1)
   \<and> (\<exists>m. make_position_mat [1, 5] = Inr m \<and> nrows m = 5 \<and> ncols m = 1)
   \<and> (\<exists>di dv. build_ind_val_dsets [3, 2] True None None None None = Inr (di, dv)
         \<and> ncols (md_data di) = 6 \<and> nrows (md_data di) = 2
         \<and> cells (md_data di) ! 1 ! 4 = 1)
   \<and> (\<exists>di dv. build_ind_val_dsets [3, 2] False None None None None = Inr (di, dv)
         \<and> nrows (md_data di) = 6 \<and> ncols (md_data di) = 2
         \<and> cells (md_data di) ! 4 ! 1 = 1)"
proof -
  have ones: "\<forall>s \<in> set [1, 1 :: nat]. s = 1"
    by simp
  have five: "\<exists>s \<in> set [1, 5 :: nat]. s > 1"
    by simp
  have s: "\<exists>si sv. build_ind_val_dsets [3, 2] True None None None None = Inr (si, sv)"
    by (simp add: build_ind_val_dsets_def check_steps_def check_initial_values_def
          check_labels_def build_datasets_eq value_matrix_def broadcast2_def broadcast_dim_def
          position_mat_dims astype_def atleast_2d_def)
  have p: "\<exists>qi qv. build_ind_val_dsets [3, 2] False None None None None = Inr (qi, qv)"
    by (simp add: build_ind_val_dsets_def check_steps_def check_initial_values_def
          check_labels_def build_datasets_eq value_matrix_def broadcast2_def broadcast_dim_def
          position_mat_dims astype_def atleast_2d_def)
  have a: "make_position_mat [1, 1] = Inr \<lparr>nrows = 1, ncols = 1, cells = [[0]]\<rparr>"
    using make_position_mat_shape [of "[1, 1]"] ones by auto
  have b: "\<exists>m. make_position_mat [1, 5] = Inr m \<and> nrows m = 5 \<and> ncols m = 1"
    using make_position_mat_shape [of "[1, 5]"] five by auto
  have m32: "make_position_mat [3, 2]
       = Inr \<lparr>nrows = 6, ncols = 2, cells = [[0, 0], [1, 0], [2, 0], [0, 1], [1, 1], [2, 1]]\<rparr>"
    by code_simp
  have ne: "[3, 2 :: nat] \<noteq> []"
    by simp
  from make_position_mat_shape [OF ne] m32 have
    t1: "\<forall>st iv lb un di dv.
           build_ind_val_dsets [3, 2] False st iv lb un = Inr (di, dv) \<longrightarrow>
             md_data di
             = \<lparr>nrows = 6, ncols = 2, cells = [[0, 0], [1, 0], [2, 0], [0, 1], [1, 1], [2, 1]]\<rparr>"
    and t2: "\<forall>st iv lb un di dv.
           build_ind_val_dsets [3, 2] True st iv lb un = Inr (di, dv) \<longrightarrow>
             ncols (md_data di) = prod_list [3, 2] \<and> nrows (md_data di) = 2
             \<and> (\<forall>r k. r < prod_list [3, 2] \<longrightarrow> k < 2 \<longrightarrow>
                   cells (md_data di) ! k ! r
                   = cells \<lparr>nrows = 6, ncols = 2,
                        cells = [[0, 0], [1, 0], [2, 0], [0, 1], [1, 1], [2, 1 :: nat]]\<rparr> ! r ! k)"
    by auto
  from s obtain si sv where s': "build_ind_val_dsets [3, 2] True None None None None = Inr (si, sv)"
    by blast
  from p obtain qi qv where p': "build_ind_val_dsets [3, 2] False None None None None = Inr (qi, qv)"
    by blast
  from t2 s' have "ncols (md_data si) = prod_list [3, 2] \<and> nrows (md_data si) = 2
      \<and> (4 < prod_list [3, 2 :: nat] \<longrightarrow> (1::nat) < 2 \<longrightarrow>
           cells (md_data si) ! 1 ! 4
           = cells \<lparr>nrows = 6, ncols = 2,
                cells = [[0, 0], [1, 0], [2, 0], [0, 1], [1, 1], [2, 1 :: nat]]\<rparr> ! 4 ! 1)"
    by blast
  then have sp: "ncols (md_data si) = 6 \<and> nrows (md_data si) = 2
      \<and> cells (md_data si) ! 1 ! 4 = 1"
    by simp
  from t1 p' have "md_data qi
      = \<lparr>nrows = 6, ncols = 2, cells = [[0, 0], [1, 0], [2, 0], [0, 1], [1, 1], [2, 1]]\<rparr>"
    by blast
  then have po: "nrows (md_data qi) = 6 \<and> ncols (md_data qi) = 2
      \<and> cells (md_data qi) ! 4 ! 1 = 1"
    by simp
  show ?thesis
    using five a b s' sp p' po by blast
qed

lemma orientation_datasets:
  assumes "build_ind_val_dsets dims False st iv lb un = Inr (qi, qv)"
  shows "\<exists>si sv. build_ind_val_dsets dims True st iv lb un = Inr (si, sv)
            \<and> md_data si = transpose_nd (md_data qi)
            \<and> md_data sv = transpose_nd (md_data qv)
            \<and> md_name si = ''Spectroscopic_Indices'' \<and> md_name sv = ''Spectroscopic_Values''
            \<and> md_name qi = ''Position_Indices'' \<and> md_name qv = ''Position_Values''
            \<and> wf_ndarray (md_data qi) \<and> wf_ndarray (md_data qv)"
proof -
  from build_ind_val_dsets_Inr [OF assms] obtain s i l bi bv where
    b: "build_datasets dims False s i l = Inr (bi, bv)"
    and d: "md_data qi = md_data bi" "md_data qv = md_data bv"
    by blast
  from build_datasets_Inr [OF b] obtain vals where
    "value_matrix dims s i = Inr vals" "md_data bi = position_mat dims" "md_data bv = vals"
    by auto
  then have wf: "wf_ndarray (md_data qi)" "wf_ndarray (md_data qv)"
    using d position_mat_wf value_matrix_wf by auto
  from assms have "\<exists>si sv. build_ind_val_dsets dims True st iv lb un = Inr (si, sv)
            \<and> md_data si = transpose_nd (md_data qi)
            \<and> md_data sv = transpose_nd (md_data qv)
            \<and> md_name si = ''Spectroscopic_Indices'' \<and> md_name sv = ''Spectroscopic_Values''
            \<and> md_name qi = ''Position_Indices'' \<and> md_name qv = ''Position_Values''"
    unfolding build_ind_val_dsets_def build_datasets_eq
    by (auto simp: set_attr_def split: sum.splits option.splits if_splits)
  with wf show ?thesis
    by blast
qed

text \<open>
  C5. Orientation law: for identical axis descriptors, the index and value matrices that
  \<^verbatim>\<open>build_ind_val_dsets\<close> produces in spectroscopic mode are the transposes of those it
  produces in position mode: the shape is swapped and entry \<open>[k][r]\<close> of the spectroscopic
  matrix is entry \<open>[r][k]\<close> of the position-mode matrix. The two modes raise on the same
  inputs, with the same error.
\<close>

theorem build_ind_val_dsets_orientation:
  "(\<forall>e. build_ind_val_dsets dims True st iv lb un = Inl e
         \<longleftrightarrow> build_ind_val_dsets dims False st iv lb un = Inl e)
   \<and> (\<forall>qi qv. build_ind_val_dsets dims False st iv lb un = Inr (qi, qv) \<longrightarrow>
         (\<exists>si sv. build_ind_val_dsets dims True st iv lb un = Inr (si, sv)
            \<and> md_data si = transpose_nd (md_data qi)
            \<and> md_data sv = transpose_nd (md_data qv)
            \<and> md_name si = ''Spectroscopic_Indices'' \<and> md_name sv = ''Spectroscopic_Values''
            \<and> md_name qi = ''Position_Indices'' \<and> md_name qv = ''Position_Values''
            \<and> nrows (md_data si) = ncols (md_data qi) \<and> ncols (md_data si) = nrows (md_data qi)
            \<and> nrows (md_data sv) = ncols (md_data qv) \<and> ncols (md_data sv) = nrows (md_data qv)
            \<and> length (cells (md_data si)) = nrows (md_data si)
            \<and> length (cells (md_data sv)) = nrows (md_data sv)
            \<and> (\<forall>row \<in> set (cells (md_data si)). length row = ncols (md_data si))
            \<and> (\<forall>row \<in> set (cells (md_data sv)). length row = ncols (md_data sv))
            \<and> (\<forall>r k. r < nrows (md_data qi) \<longrightarrow> k < ncols (md_data qi) \<longrightarrow>
                  cells (md_data si) ! k ! r = cells (md_data qi) ! r ! k)
            \<and> (\<forall>r k. r < nrows (md_data qv) \<longrightarrow> k < ncols (md_data qv) \<longrightarrow>
                  cells (md_data sv) ! k ! r = cells (md_data qv) ! r ! k)))"
proof -
  have errs: "\<forall>e. build_ind_val_dsets dims True st iv lb un = Inl e
         \<longleftrightarrow> build_ind_val_dsets dims False st iv lb un = Inl e"
    unfolding build_ind_val_dsets_def build_datasets_eq
    by (auto simp: set_attr_def split: sum.splits option.splits)
  have main: "\<forall>qi qv. build_ind_val_dsets dims False st iv lb un = Inr (qi, qv) \<longrightarrow>
         (\<exists>si sv. build_ind_val_dsets dims True st iv lb un = Inr (si, sv)
            \<and> md_data si = transpose_nd (md_data qi)
            \<and> md_data sv = transpose_nd (md_data qv)
            \<and> md_name si = ''Spectroscopic_Indices'' \<and> md_name sv = ''Spectroscopic_Values''
            \<and> md_name qi = ''Position_Indices'' \<and> md_name qv = ''Position_Values''
            \<and> nrows (md_data si) = ncols (md_data qi) \<and> ncols (md_data si) = nrows (md_data qi)
            \<and> nrows (md_data sv) = ncols (md_data qv) \<and> ncols (md_data sv) = nrows (md_data qv)
            \<and> length (cells (md_data si)) = nrows (md_data si)
            \<and> length (cells (md_data sv)) = nrows (md_data sv)
            \<and> (\<forall>row \<in> set (cells (md_data si)). length row = ncols (md_data si))
            \<and> (\<forall>row \<in> set (cells (md_data sv)). length row = ncols (md_data sv))
            \<and> (\<forall>r k. r < nrows (md_data qi) \<longrightarrow> k < ncols (md_data qi) \<longrightarrow>
                  cells (md_data si) ! k ! r = cells (md_data qi) ! r ! k)
            \<and> (\<forall>r k. r < nrows (md_data qv) \<longrightarrow> k < ncols (md_data qv) \<longrightarrow>
                  cells (md_data sv) ! k ! r = cells (md_data qv) ! r ! k))"
  proof (intro allI impI)
    fix qi qv
    assume p: "build_ind_val_dsets dims False st iv lb un = Inr (qi, qv)"
    from orientation_datasets [OF p] obtain si sv where
      s: "build_ind_val_dsets dims True st iv lb un = Inr (si, sv)"
      and d: "md_data si = transpose_nd (md_data qi)" "md_data sv = transpose_nd (md_data qv)"
      and n: "md_name si = ''Spectroscopic_Indices''" "md_name sv = ''Spectroscopic_Values''"
        "md_name qi = ''Position_Indices''" "md_name qv = ''Position_Values''"
      and wf: "wf_ndarray (md_data qi)" "wf_ndarray (md_data qv)"
      by blast
    have wi: "wf_ndarray (md_data si)" and wv: "wf_ndarray (md_data sv)"
      unfolding d using wf by (simp_all add: transpose_nd_wf)
    have ei: "\<forall>r k. r < nrows (md_data qi) \<longrightarrow> k < ncols (md_data qi) \<longrightarrow>
                  cells (md_data si) ! k ! r = cells (md_data qi) ! r ! k"
      unfolding d using transpose_nd_nth [OF wf(1)] by blast
    have ev: "\<forall>r k. r < nrows (md_data qv) \<longrightarrow> k < ncols (md_data qv) \<longrightarrow>
                  cells (md_data sv) ! k ! r = cells (md_data qv) ! r ! k"
      unfolding d using transpose_nd_nth [OF wf(2)] by blast
    have sh: "nrows (md_data si) = ncols (md_data qi)" "ncols (md_data si) = nrows (md_data qi)"
      "nrows (md_data sv) = ncols (md_data qv)" "ncols (md_data sv) = nrows (md_data qv)"
      unfolding d by simp_all
    show "\<exists>si sv. build_ind_val_dsets dims True st iv lb un = Inr (si, sv)
            \<and> md_data si = transpose_nd (md_data qi)
            \<and> md_data sv = transpose_nd (md_data qv)
            \<and> md_name si = ''Spectroscopic_Indices'' \<and> md_name sv = ''Spectroscopic_Values''
            \<and> md_name qi = ''Position_Indices'' \<and> md_name qv = ''Position_Values''
            \<and> nrows (md_data si) = ncols (md_data qi) \<and> ncols (md_data si) = nrows (md_data qi)
            \<and> nrows (md_data sv) = ncols (md_data qv) \<and> ncols (md_data sv) = nrows (md_data qv)
            \<and> length (cells (md_data si)) = nrows (md_data si)
            \<and> length (cells (md_data sv)) = nrows (md_data sv)
            \<and> (\<forall>row \<in> set (cells (md_data si)). length row = ncols (md_data si))
            \<and> (\<forall>row \<in> set (cells (md_data sv)). length row = ncols (md_data sv))
            \<and> (\<forall>r k. r < nrows (md_data qi) \<longrightarrow> k < ncols (md_data qi) \<longrightarrow>
                  cells (md_data si) ! k ! r = cells (md_data qi) ! r ! k)
            \<and> (\<forall>r k. r < nrows (md_data qv) \<longrightarrow> k < ncols (md_data qv) \<longrightarrow>
                  cells (md_data sv) ! k ! r = cells (md_data qv) ! r ! k)"
      using s d n sh ei ev wi wv unfolding wf_ndarray_def
      by (intro exI [of _ si] exI [of _ sv] conjI) simp_all
  qed
  from errs main show ?thesis
    by (rule conjI)
qed

theorem build_ind_val_dsets_orientation_witness:
  "\<exists>qi qv si sv.
     build_ind_val_dsets [3, 2] False (Some [1/2, 2]) (Some [10, 0]) None None = Inr (qi, qv)
     \<and> build_ind_val_dsets [3, 2] True (Some [1/2, 2]) (Some [10, 0]) None None = Inr (si, sv)
     \<and> md_data qi = \<lparr>nrows = 6, ncols = 2,
                      cells = [[0, 0], [1, 0], [2, 0], [0, 1], [1, 1], [2, 1]]\<rparr>
     \<and> md_data si = \<lparr>nrows = 2, ncols = 6,
                      cells = [[0, 1, 2, 0, 1, 2], [0, 0, 0, 1, 1, 1]]\<rparr>
     \<and> md_data qv = \<lparr>nrows = 6, ncols = 2,
                      cells = [[10, 0], [21/2, 0], [11, 0], [10, 2], [21/2, 2], [11, 2]]\<rparr>
     \<and> md_data sv = \<lparr>nrows = 2, ncols = 6,
                      cells = [[10, 21/2, 11, 10, 21/2, 11], [0, 0, 0, 2, 2, 2]]\<rparr>
     \<and> cells (md_data si) ! 1 ! 4 = cells (md_data qi) ! 4 ! 1
     \<and> cells (md_data sv) ! 0 ! 1 = cells (md_data qv) ! 1 ! 0"
proof -
  let ?pi = "\<lparr>nrows = 6, ncols = 2,
                cells = [[0, 0], [1, 0], [2, 0], [0, 1], [1, 1], [2, 1 :: nat]]\<rparr>"
  let ?pv = "\<lparr>nrows = 6, ncols = 2,
                cells = [[10, 0], [21/2, 0], [11, 0], [10, 2], [21/2, 2], [11, 2 :: rat]]\<rparr>"
  have p: "build_ind_val_dsets [3, 2] False (Some [1/2, 2]) (Some [10, 0]) None None
     = Inr (MicroDataset ''Position_Indices'' ?pi (Some UInt32)
              [(''labels'', SliceDictAttr [('''', Slice None None, Slice (Some 1) (Some 2))])],
            MicroDataset ''Position_Values'' ?pv (Some Float32)
              [(''labels'', SliceDictAttr [('''', Slice None None, Slice (Some 1) (Some 2))])])"
    by code_simp
  have ti: "transpose_nd ?pi
      = \<lparr>nrows = 2, ncols = 6, cells = [[0, 1, 2, 0, 1, 2], [0, 0, 0, 1, 1, 1]]\<rparr>"
    by code_simp
  have tv: "transpose_nd ?pv
      = \<lparr>nrows = 2, ncols = 6, cells = [[10, 21/2, 11, 10, 21/2, 11], [0, 0, 0, 2, 2, 2]]\<rparr>"
    by code_simp
  note t = build_ind_val_dsets_orientation
    [of "[3, 2]" "Some [1/2, 2]" "Some [10, 0]" None None, THEN conjunct2, rule_format, OF p]
  then obtain si sv where
    s: "build_ind_val_dsets [3, 2] True (Some [1/2, 2]) (Some [10, 0]) None None = Inr (si, sv)"
    and d: "md_data si = transpose_nd ?pi" "md_data sv = transpose_nd ?pv"
    by auto
  show ?thesis
    unfolding p s using d ti tv by simp
qed

section \<open>Slice dictionaries\<close>

lemma get_position_slicing_snoc:
  "get_position_slicing (labs @ [l]) c
     = AList.update l (slice1 c, slice2 (length labs) (length labs + 1))
         (get_position_slicing labs c)"
  by (simp add: get_position_slicing_def enumerate_append_eq)

lemma get_spectral_slicing_snoc:
  "get_spectral_slicing (labs @ [l]) c
     = AList.update l (slice2 (length labs) (length labs + 1), slice1 c)
         (get_spectral_slicing labs c)"
  by (simp add: get_spectral_slicing_def enumerate_append_eq)

text \<open>A label is mapped to the slices of the last position at which it occurs.\<close>

lemma get_position_slicing_lookup:
  assumes "k < length labs" and "labs ! k \<notin> set (drop (Suc k) labs)"
  shows "map_of (get_position_slicing labs c) (labs ! k) = Some (slice1 c, slice2 k (k + 1))"
  using assms
proof (induction labs rule: rev_induct)
  case Nil
  then show ?case by simp
next
  case (snoc l labs)
  show ?case
  proof (cases "k = length labs")
    case True
    then show ?thesis
      by (simp add: get_position_slicing_snoc update_conv')
  next
    case False
    with snoc.prems have k: "k < length labs" by simp
    with snoc.prems have "labs ! k \<noteq> l" "labs ! k \<notin> set (drop (Suc k) labs)"
      by (simp_all add: nth_append)
    with k snoc.IH show ?thesis
      by (simp add: get_position_slicing_snoc update_conv' nth_append)
  qed
qed

lemma get_spectral_slicing_lookup:
  assumes "k < length labs" and "labs ! k \<notin> set (drop (Suc k) labs)"
  shows "map_of (get_spectral_slicing labs c) (labs ! k) = Some (slice2 k (k + 1), slice1 c)"
  using assms
proof (induction labs rule: rev_induct)
  case Nil
  then show ?case by simp
next
  case (snoc l labs)
  show ?case
  proof (cases "k = length labs")
    case True
    then show ?thesis
      by (simp add: get_spectral_slicing_snoc update_conv')
  next
    case False
    with snoc.prems have k: "k < length labs" by simp
    with snoc.prems have "labs ! k \<noteq> l" "labs ! k \<notin> set (drop (Suc k) labs)"
      by (simp_all add: nth_append)
    with k snoc.IH show ?thesis
      by (simp add: get_spectral_slicing_snoc update_conv' nth_append)
  qed
qed

text \<open>The keys are the labels, each of them once.\<close>

lemma get_position_slicing_keys:
  "fst ` set (get_position_slicing labs c) = set labs
   \<and> distinct (map fst (get_position_slicing labs c))"
proof (induction labs rule: rev_induct)
  case Nil
  show ?case by (simp add: get_position_slicing_def)
next
  case (snoc l labs)
  then show ?case
    by (auto simp: get_position_slicing_snoc dom_update distinct_update)
qed

lemma get_spectral_slicing_keys:
  "fst ` set (get_spectral_slicing labs c) = set labs
   \<and> distinct (map fst (get_spectral_slicing labs c))"
proof (induction labs rule: rev_induct)
  case Nil
  show ?case by (simp add: get_spectral_slicing_def)
next
  case (snoc l labs)
  then show ?case
    by (auto simp: get_spectral_slicing_snoc dom_update distinct_update)
qed

lemma single_entry:
  assumes "distinct (map fst d)" and "k \<in> fst ` set d"
  shows "length (filter (\<lambda>p. fst p = k) d) = 1"
  using assms
proof (induction d)
  case Nil
  then show ?case by simp
next
  case (Cons p d)
  show ?case
  proof (cases "fst p = k")
    case True
    with Cons.prems have "\<forall>q \<in> set d. fst q \<noteq> k"
      by (auto simp: image_iff)
    then have "filter (\<lambda>p. fst p = k) d = []"
      by (auto simp: filter_empty_conv)
    with True show ?thesis
      by simp
  next
    case False
    with Cons show ?thesis
      by auto
  qed
qed

text \<open>A list that repeats one label gives a dictionary with one entry, the last axis.\<close>

lemma get_position_slicing_replicate:
  "get_position_slicing (replicate (Suc n) l) c = [(l, slice1 c, slice2 n (n + 1))]"
proof (induction n)
  case 0
  show ?case by (simp add: get_position_slicing_def)
next
  case (Suc n)
  have "replicate (Suc (Suc n)) l = replicate (Suc n) l @ [l]"
    by (simp add: replicate_append_same)
  then show ?case
    using Suc by (simp only: get_position_slicing_snoc) simp
qed

lemma get_spectral_slicing_replicate:
  "get_spectral_slicing (replicate (Suc n) l) c = [(l, slice2 n (n + 1), slice1 c)]"
proof (induction n)
  case 0
  show ?case by (simp add: get_spectral_slicing_def)
next
  case (Suc n)
  have "replicate (Suc (Suc n)) l = replicate (Suc n) l @ [l]"
    by (simp add: replicate_append_same)
  then show ?case
    using Suc by (simp only: get_spectral_slicing_snoc) simp
qed

text \<open>What the two kinds of slice select along an axis of length \<open>n\<close>.\<close>

lemma slice_indices_slice1:
  "slice_indices (slice1 extent) n = [0..<(case extent of None \<Rightarrow> n | Some e \<Rightarrow> min e n)]"
  by (simp add: slice_indices_def slice1_def split: option.splits)

lemma slice_indices_slice2:
  "slice_indices (slice2 k (k + 1)) n = (if k < n then [k] else [])"
  by (simp add: slice_indices_def slice2_def min_def upt_rec)

section \<open>The specification on the slice dictionaries\<close>

text \<open>
  C6, as stated: for every list of axis labels and every optional extent bound,
  \<^verbatim>\<open>get_position_slicing\<close> maps the label at position \<open>k\<close> to the pair (rows
  \<open>[0, extent)\<close>, or all rows without a bound; columns \<open>[k, k+1)\<close>), and
  \<^verbatim>\<open>get_spectral_slicing\<close> maps it to the transposed pair. This fails when a label
  occurs again at a later position: the dictionary has one entry per label and the later
  axis overwrites it. With the labels \<open>x, x\<close> the label at position 0 is mapped to the
  columns \<open>[1, 2)\<close>.
\<close>

theorem slicing_repeated_label_counterexample:
  "map_of (get_position_slicing [''x'', ''x''] None) ([''x'', ''x''] ! 0)
     \<noteq> Some (slice1 None, slice2 0 (0 + 1))
   \<and> map_of (get_position_slicing [''x'', ''x''] None) ([''x'', ''x''] ! 0)
     = Some (slice1 None, slice2 1 (1 + 1))
   \<and> map_of (get_spectral_slicing [''x'', ''x''] None) ([''x'', ''x''] ! 0)
     \<noteq> Some (slice2 0 (0 + 1), slice1 None)"
  by (simp add: get_position_slicing_def get_spectral_slicing_def slice1_def slice2_def)

text \<open>
  C6, amended: for every list of axis labels, every optional extent bound and every
  position \<open>k\<close> whose label does not occur again at a later position (so for every
  position when the labels are pairwise distinct), \<^verbatim>\<open>get_position_slicing\<close> maps the
  label at position \<open>k\<close> to the pair (rows \<open>[0, extent)\<close>, or all rows without a bound;
  columns \<open>[k, k+1)\<close>), and \<^verbatim>\<open>get_spectral_slicing\<close> maps it to the transposed pair.
  The last two conjuncts say what the two slices select along an axis of length \<open>n\<close>.
\<close>

theorem slicing_maps_label_to_axis:
  assumes "k < length labs" and "labs ! k \<notin> set (drop (Suc k) labs)"
  shows "map_of (get_position_slicing labs extent) (labs ! k)
           = Some (slice1 extent, slice2 k (k + 1))
         \<and> map_of (get_spectral_slicing labs extent) (labs ! k)
           = Some (slice2 k (k + 1), slice1 extent)
         \<and> slice_indices (slice1 extent) n
           = [0..<(case extent of None \<Rightarrow> n | Some e \<Rightarrow> min e n)]
         \<and> slice_indices (slice2 k (k + 1)) n = (if k < n then [k] else [])"
  using get_position_slicing_lookup [OF assms, of extent]
    get_spectral_slicing_lookup [OF assms, of extent]
    slice_indices_slice1 [of extent n] slice_indices_slice2 [of k n]
  by simp

theorem slicing_maps_label_to_axis_witness:
  "(1::nat) < length [''x'', ''y'', ''z'']
   \<and> [''x'', ''y'', ''z''] ! 1 \<notin> set (drop (Suc 1) [''x'', ''y'', ''z''])
   \<and> map_of (get_position_slicing [''x'', ''y'', ''z''] (Some 4)) ''y''
       = Some (Slice None (Some 4), Slice (Some 1) (Some 2))
   \<and> map_of (get_spectral_slicing [''x'', ''y'', ''z''] (Some 4)) ''y''
       = Some (Slice (Some 1) (Some 2), Slice None (Some 4))
   \<and> slice_indices (Slice None (Some 4)) 6 = [0, 1, 2, 3]
   \<and> slice_indices (Slice (Some 1) (Some 2)) 6 = [1]"
proof -
  have h1: "(1::nat) < length [''x'', ''y'', ''z'']"
    by simp
  have h2: "[''x'', ''y'', ''z''] ! 1 \<notin> set (drop (Suc 1) [''x'', ''y'', ''z''])"
    by simp
  have u: "[0..<4] = [0, 1, 2, 3 :: nat]"
    by code_simp
  show ?thesis
    using slicing_maps_label_to_axis [OF h1 h2, of "Some 4" 6] h1 h2
    by (simp add: slice1_def slice2_def u eval_nat_numeral)
qed

text \<open>
  C10. The slice dictionary is keyed by axis label: whenever two axes share a label, the
  dictionary has a single entry for that label, holding the slices of the later axis (the
  last one with that label). In particular, when the labels are omitted, so that every
  axis gets the empty label, and there is more than one axis, the \<^verbatim>\<open>labels\<close> attribute of
  both datasets has exactly one entry, that of the last axis; the slices of the earlier
  axes are lost.
\<close>

theorem shared_label_keeps_later_axis:
  "(\<forall>i j. i < j \<longrightarrow> j < length labs \<longrightarrow> labs ! i = labs ! j
          \<longrightarrow> labs ! j \<notin> set (drop (Suc j) labs) \<longrightarrow>
       map_of (get_position_slicing labs c) (labs ! i) = Some (slice1 c, slice2 j (j + 1))
       \<and> map_of (get_spectral_slicing labs c) (labs ! i) = Some (slice2 j (j + 1), slice1 c)
       \<and> length (filter (\<lambda>p. fst p = labs ! i) (get_position_slicing labs c)) = 1
       \<and> length (filter (\<lambda>p. fst p = labs ! i) (get_spectral_slicing labs c)) = 1)
   \<and> (\<forall>sp st iv un di dv.
         1 < length dims \<longrightarrow> build_ind_val_dsets dims sp st iv None un = Inr (di, dv) \<longrightarrow>
           map_of (md_attrs di) ''labels''
             = Some (SliceDictAttr
                 [('''', if sp then (slice2 (length dims - 1) (length dims), slice1 None)
                         else (slice1 None, slice2 (length dims - 1) (length dims)))])
           \<and> map_of (md_attrs dv) ''labels'' = map_of (md_attrs di) ''labels'')"
proof -
  have dict: "\<forall>i j. i < j \<longrightarrow> j < length labs \<longrightarrow> labs ! i = labs ! j
          \<longrightarrow> labs ! j \<notin> set (drop (Suc j) labs) \<longrightarrow>
       map_of (get_position_slicing labs c) (labs ! i) = Some (slice1 c, slice2 j (j + 1))
       \<and> map_of (get_spectral_slicing labs c) (labs ! i) = Some (slice2 j (j + 1), slice1 c)
       \<and> length (filter (\<lambda>p. fst p = labs ! i) (get_position_slicing labs c)) = 1
       \<and> length (filter (\<lambda>p. fst p = labs ! i) (get_spectral_slicing labs c)) = 1"
  proof (intro allI impI)
    fix i j
    assume ij: "i < j" and j: "j < length labs" and eq: "labs ! i = labs ! j"
      and last: "labs ! j \<notin> set (drop (Suc j) labs)"
    have mem: "labs ! i \<in> set labs"
      using ij j by simp
    have p: "length (filter (\<lambda>p. fst p = labs ! i) (get_position_slicing labs c)) = 1"
      using get_position_slicing_keys [of labs c] mem by (intro single_entry) simp_all
    have s: "length (filter (\<lambda>p. fst p = labs ! i) (get_spectral_slicing labs c)) = 1"
      using get_spectral_slicing_keys [of labs c] mem by (intro single_entry) simp_all
    show "map_of (get_position_slicing labs c) (labs ! i) = Some (slice1 c, slice2 j (j + 1))
       \<and> map_of (get_spectral_slicing labs c) (labs ! i) = Some (slice2 j (j + 1), slice1 c)
       \<and> length (filter (\<lambda>p. fst p = labs ! i) (get_position_slicing labs c)) = 1
       \<and> length (filter (\<lambda>p. fst p = labs ! i) (get_spectral_slicing labs c)) = 1"
      using get_position_slicing_lookup [OF j last] get_spectral_slicing_lookup [OF j last] p s
      by (simp add: eq)
  qed
  have default: "\<forall>sp st iv un di dv.
         1 < length dims \<longrightarrow> build_ind_val_dsets dims sp st iv None un = Inr (di, dv) \<longrightarrow>
           map_of (md_attrs di) ''labels''
             = Some (SliceDictAttr
                 [('''', if sp then (slice2 (length dims - 1) (length dims), slice1 None)
                         else (slice1 None, slice2 (length dims - 1) (length dims)))])
           \<and> map_of (md_attrs dv) ''labels'' = map_of (md_attrs di) ''labels''"
  proof (intro allI impI)
    fix sp st iv un di dv
    assume n: "1 < length dims"
      and r: "build_ind_val_dsets dims sp st iv None un = Inr (di, dv)"
    from n obtain m where m: "length dims = Suc m"
      by (cases "length dims") simp_all
    from build_ind_val_dsets_Inr [OF r] obtain s i l bi bv where
      l: "check_labels dims None = Inr l"
      and b: "build_datasets dims sp s i l = Inr (bi, bv)"
      and a: "md_attrs di = (case un of None \<Rightarrow> md_attrs bi
                             | Some u \<Rightarrow> AList.update ''units'' (StrListAttr u) (md_attrs bi))"
             "md_attrs dv = (case un of None \<Rightarrow> md_attrs bv
                             | Some u \<Rightarrow> AList.update ''units'' (StrListAttr u) (md_attrs bv))"
      by blast
    from l have l': "l = replicate (Suc m) ''''"
      by (simp add: check_labels_def map_replicate_const m)
    from build_datasets_Inr [OF b] have
      bi: "md_attrs bi = [(''labels'', SliceDictAttr (if sp then get_spectral_slicing l None
                                                         else get_position_slicing l None))]"
      and bv: "md_attrs bv = md_attrs bi"
      by auto
    show "map_of (md_attrs di) ''labels''
             = Some (SliceDictAttr
                 [('''', if sp then (slice2 (length dims - 1) (length dims), slice1 None)
                         else (slice1 None, slice2 (length dims - 1) (length dims)))])
           \<and> map_of (md_attrs dv) ''labels'' = map_of (md_attrs di) ''labels''"
      unfolding a bv bi l' get_position_slicing_replicate get_spectral_slicing_replicate m
      by (cases un) (simp_all add: update_conv')
  qed
  from dict default show ?thesis
    by blast
qed

theorem shared_label_keeps_later_axis_witness:
  "(0::nat) < 2 \<and> (2::nat) < length [''a'', ''b'', ''a'']
   \<and> [''a'', ''b'', ''a''] ! 0 = [''a'', ''b'', ''a''] ! 2
   \<and> [''a'', ''b'', ''a''] ! 2 \<notin> set (drop (Suc 2) [''a'', ''b'', ''a''])
   \<and> map_of (get_position_slicing [''a'', ''b'', ''a''] None) ''a''
       = Some (Slice None None, Slice (Some 2) (Some 3))
   \<and> length (filter (\<lambda>p. fst p = ''a'') (get_position_slicing [''a'', ''b'', ''a''] None)) = 1
   \<and> 1 < length [2, 3 :: nat]
   \<and> (\<exists>di dv. build_ind_val_dsets [2, 3] False None None None None = Inr (di, dv)
        \<and> map_of (md_attrs di) ''labels''
            = Some (SliceDictAttr [('''', Slice None None, Slice (Some 1) (Some 2))])
        \<and> map_of (md_attrs dv) ''labels''
            = Some (SliceDictAttr [('''', Slice None None, Slice (Some 1) (Some 2))]))"
proof -
  let ?labs = "[''a'', ''b'', ''a'']"
  have h: "(0::nat) < 2" "(2::nat) < length ?labs" "?labs ! 0 = ?labs ! 2"
    "?labs ! 2 \<notin> set (drop (Suc 2) ?labs)"
    by simp_all
  note t = shared_label_keeps_later_axis [of ?labs None "[2, 3]"]
  from t h have "map_of (get_position_slicing ?labs None) (?labs ! 0)
        = Some (slice1 None, slice2 2 (2 + 1))
      \<and> length (filter (\<lambda>p. fst p = ?labs ! 0) (get_position_slicing ?labs None)) = 1"
    by blast
  then have d: "map_of (get_position_slicing ?labs None) ''a''
        = Some (Slice None None, Slice (Some 2) (Some 3))
      \<and> length (filter (\<lambda>p. fst p = ''a'') (get_position_slicing ?labs None)) = 1"
    by (simp add: slice1_def slice2_def eval_nat_numeral)
  have n: "1 < length [2, 3 :: nat]"
    by simp
  obtain di dv where r: "build_ind_val_dsets [2, 3] False None None None None = Inr (di, dv)"
    by (simp add: build_ind_val_dsets_def check_steps_def check_initial_values_def
          check_labels_def build_datasets_eq value_matrix_def broadcast2_def broadcast_dim_def
          position_mat_dims astype_def atleast_2d_def)
  from t n r have "map_of (md_attrs di) ''labels''
        = Some (SliceDictAttr
            [('''', if False then (slice2 (length [2, 3 :: nat] - 1) (length [2, 3 :: nat]), slice1 None)
                    else (slice1 None, slice2 (length [2, 3 :: nat] - 1) (length [2, 3 :: nat])))])
      \<and> map_of (md_attrs dv) ''labels'' = map_of (md_attrs di) ''labels''"
    by blast
  then have "map_of (md_attrs di) ''labels''
        = Some (SliceDictAttr [('''', Slice None None, Slice (Some 1) (Some 2))])
      \<and> map_of (md_attrs dv) ''labels''
        = Some (SliceDictAttr [('''', Slice None None, Slice (Some 1) (Some 2))])"
    by (simp add: slice1_def slice2_def eval_nat_numeral)
  with h d n r show ?thesis
    by blast
qed

section \<open>Singleton axes among active axes\<close>

text \<open>
  \<^verbatim>\<open>make_position_mat\<close> drops the axes of size 1 from the index matrix, but
  \<^verbatim>\<open>build_ind_val_dsets\<close> goes on to combine that matrix with the step sizes, the initial
  values and the labels of all the axes. The three properties below fail on the code for this
  one reason.
\<close>

text \<open>
  C3 (the code departs from it). The specification says: for every valid input, the value dataset
  satisfies \<open>ValueMatrix[r, k] = initial_value_k + IndexMatrix[r, k] * step_k\<close> for every
  row \<open>r\<close> and active axis \<open>k\<close>. For the sizes \<open>[1, 5]\<close> with steps \<open>[2, 0.5]\<close> and initial
  values \<open>[0, 10]\<close> the only active axis is axis 1, with step 0.5 and initial value 10, and
  its indices are column 0 of the index matrix. Column 0 of the value matrix is
  \<open>0 + index * 2\<close>, computed with the step and the initial value of the singleton axis 0.
  For the sizes \<open>[2, 1, 3]\<close> the call raises numpy's broadcasting error and there is no
  value dataset at all. Scenario D of the specification, which has no singleton axis,
  holds.
\<close>

theorem values_use_step_of_singleton_axis:
  "build_ind_val_dsets [1, 5] False (Some [2, 1/2]) (Some [0, 10]) (Some [''x'', ''y'']) None
     = Inr (MicroDataset ''Position_Indices''
              \<lparr>nrows = 5, ncols = 1, cells = [[0], [1], [2], [3], [4]]\<rparr> (Some UInt32)
              [(''labels'', SliceDictAttr
                  [(''x'', Slice None None, Slice (Some 0) (Some 1)),
                   (''y'', Slice None None, Slice (Some 1) (Some 2))])],
            MicroDataset ''Position_Values''
              \<lparr>nrows = 5, ncols = 2,
                 cells = [[0, 10], [2, 21/2], [4, 11], [6, 23/2], [8, 12]]\<rparr> (Some Float32)
              [(''labels'', SliceDictAttr
                  [(''x'', Slice None None, Slice (Some 0) (Some 1)),
                   (''y'', Slice None None, Slice (Some 1) (Some 2))])])
   \<and> output_column [1, 5] 1 = 0
   \<and> (2::rat) \<noteq> 10 + rat_of_nat 1 * (1/2)
   \<and> build_ind_val_dsets [2, 1, 3] False (Some [1, 1, 1]) (Some [0, 0, 0]) None None
       = Inl (ValueError broadcast_msg)
   \<and> (\<exists>di dv. build_ind_val_dsets [4] False (Some [1/2]) (Some [10]) None None = Inr (di, dv)
         \<and> md_data dv = \<lparr>nrows = 4, ncols = 1, cells = [[10], [21/2], [11], [23/2]]\<rparr>)"
proof -
  have a: "build_ind_val_dsets [1, 5] False (Some [2, 1/2]) (Some [0, 10]) (Some [''x'', ''y'']) None
     = Inr (MicroDataset ''Position_Indices''
              \<lparr>nrows = 5, ncols = 1, cells = [[0], [1], [2], [3], [4]]\<rparr> (Some UInt32)
              [(''labels'', SliceDictAttr
                  [(''x'', Slice None None, Slice (Some 0) (Some 1)),
                   (''y'', Slice None None, Slice (Some 1) (Some 2))])],
            MicroDataset ''Position_Values''
              \<lparr>nrows = 5, ncols = 2,
                 cells = [[0, 10], [2, 21/2], [4, 11], [6, 23/2], [8, 12]]\<rparr> (Some Float32)
              [(''labels'', SliceDictAttr
                  [(''x'', Slice None None, Slice (Some 0) (Some 1)),
                   (''y'', Slice None None, Slice (Some 1) (Some 2))])])"
    by code_simp
  have b: "output_column [1, 5] 1 = 0"
    by code_simp
  have c: "(2::rat) \<noteq> 10 + rat_of_nat 1 * (1/2)"
    by simp
  have d: "build_ind_val_dsets [2, 1, 3] False (Some [1, 1, 1]) (Some [0, 0, 0]) None None
       = Inl (ValueError broadcast_msg)"
    by code_simp
  have e: "build_ind_val_dsets [4] False (Some [1/2]) (Some [10]) None None
       = Inr (MicroDataset ''Position_Indices''
              \<lparr>nrows = 4, ncols = 1, cells = [[0], [1], [2], [3]]\<rparr> (Some UInt32)
              [(''labels'', SliceDictAttr [('''', Slice None None, Slice (Some 0) (Some 1))])],
            MicroDataset ''Position_Values''
              \<lparr>nrows = 4, ncols = 1, cells = [[10], [21/2], [11], [23/2]]\<rparr> (Some Float32)
              [(''labels'', SliceDictAttr [('''', Slice None None, Slice (Some 0) (Some 1))])])"
    by code_simp
  show ?thesis
    unfolding a b d e using c by simp
qed

text \<open>
  C4 (the code departs from it). The specification says: for every list of axis descriptors that
  \<^verbatim>\<open>build_ind_val_dsets\<close> accepts, singleton axes among active ones included, the value
  matrix has the shape of the index matrix. For the sizes \<open>[1, 5]\<close>, with every optional
  argument omitted, the call returns an index matrix of 5 rows and 1 column and a value
  matrix of 5 rows and 2 columns: the single index column is broadcast against the two
  steps. The same holds in spectroscopic mode, transposed.
\<close>

theorem value_shape_differs_with_singleton_axis:
  "build_ind_val_dsets [1, 5] False None None None None
     = Inr (MicroDataset ''Position_Indices''
              \<lparr>nrows = 5, ncols = 1, cells = [[0], [1], [2], [3], [4]]\<rparr> (Some UInt32)
              [(''labels'', SliceDictAttr [('''', Slice None None, Slice (Some 1) (Some 2))])],
            MicroDataset ''Position_Values''
              \<lparr>nrows = 5, ncols = 2,
                 cells = [[0, 0], [1, 1], [2, 2], [3, 3], [4, 4]]\<rparr> (Some Float32)
              [(''labels'', SliceDictAttr [('''', Slice None None, Slice (Some 1) (Some 2))])])
   \<and> (\<exists>di dv. build_ind_val_dsets [1, 5] True None None None None = Inr (di, dv)
         \<and> nrows (md_data di) = 1 \<and> ncols (md_data di) = 5
         \<and> nrows (md_data dv) = 2 \<and> ncols (md_data dv) = 5)"
proof -
  have a: "build_ind_val_dsets [1, 5] False None None None None
     = Inr (MicroDataset ''Position_Indices''
              \<lparr>nrows = 5, ncols = 1, cells = [[0], [1], [2], [3], [4]]\<rparr> (Some UInt32)
              [(''labels'', SliceDictAttr [('''', Slice None None, Slice (Some 1) (Some 2))])],
            MicroDataset ''Position_Values''
              \<lparr>nrows = 5, ncols = 2,
                 cells = [[0, 0], [1, 1], [2, 2], [3, 3], [4, 4]]\<rparr> (Some Float32)
              [(''labels'', SliceDictAttr [('''', Slice None None, Slice (Some 1) (Some 2))])])"
    by code_simp
  have b: "build_ind_val_dsets [1, 5] True None None None None
     = Inr (MicroDataset ''Spectroscopic_Indices''
              \<lparr>nrows = 1, ncols = 5, cells = [[0, 1, 2, 3, 4]]\<rparr> (Some UInt32)
              [(''labels'', SliceDictAttr [('''', Slice (Some 1) (Some 2), Slice None None)])],
            MicroDataset ''Spectroscopic_Values''
              \<lparr>nrows = 2, ncols = 5,
                 cells = [[0, 1, 2, 3, 4], [0, 1, 2, 3, 4]]\<rparr> (Some Float32)
              [(''labels'', SliceDictAttr [('''', Slice (Some 1) (Some 2), Slice None None)])])"
    by code_simp
  show ?thesis
    unfolding a b by simp
qed

text \<open>
  C8 (the code departs from it). The specification says: for every input and every label of the
  \<^verbatim>\<open>labels\<close> attribute, applying the label's pair of slices to the returned index or
  value matrix selects exactly one full column (position mode) or row (spectroscopic
  mode) within the bounds of the matrix. For the sizes \<open>[1, 5]\<close> with the labels
  \<open>x, y\<close> the slices are built for both labels, while the index matrix has the single
  column of axis \<open>y\<close>: the slices of \<open>y\<close> ask for the columns \<open>[1, 2)\<close>, outside the
  matrix, and select nothing; the slices of \<open>x\<close>, the singleton axis, select the column of
  \<open>y\<close>.
\<close>

theorem label_slice_outside_index_matrix:
  "(\<exists>di dv sd.
      build_ind_val_dsets [1, 5] False None None (Some [''x'', ''y'']) None = Inr (di, dv)
      \<and> map_of (md_attrs di) ''labels'' = Some (SliceDictAttr sd)
      \<and> map_of sd ''y'' = Some (Slice None None, Slice (Some 1) (Some 2))
      \<and> ncols (md_data di) = 1
      \<and> slice_indices (Slice (Some 1) (Some 2)) (ncols (md_data di)) = []
      \<and> getitem (md_data di) (Slice None None, Slice (Some 1) (Some 2))
          = \<lparr>nrows = 5, ncols = 0, cells = [[], [], [], [], []]\<rparr>
      \<and> map_of sd ''x'' = Some (Slice None None, Slice (Some 0) (Some 1))
      \<and> getitem (md_data di) (Slice None None, Slice (Some 0) (Some 1))
          = \<lparr>nrows = 5, ncols = 1, cells = [[0], [1], [2], [3], [4]]\<rparr>)
   \<and> (\<exists>di dv sd.
      build_ind_val_dsets [1, 5] True None None (Some [''x'', ''y'']) None = Inr (di, dv)
      \<and> map_of (md_attrs di) ''labels'' = Some (SliceDictAttr sd)
      \<and> map_of sd ''y'' = Some (Slice (Some 1) (Some 2), Slice None None)
      \<and> nrows (md_data di) = 1
      \<and> getitem (md_data di) (Slice (Some 1) (Some 2), Slice None None)
          = \<lparr>nrows = 0, ncols = 5, cells = []\<rparr>)"
proof -
  have a: "build_ind_val_dsets [1, 5] False None None (Some [''x'', ''y'']) None
     = Inr (MicroDataset ''Position_Indices''
              \<lparr>nrows = 5, ncols = 1, cells = [[0], [1], [2], [3], [4]]\<rparr> (Some UInt32)
              [(''labels'', SliceDictAttr
                  [(''x'', Slice None None, Slice (Some 0) (Some 1)),
                   (''y'', Slice None None, Slice (Some 1) (Some 2))])],
            MicroDataset ''Position_Values''
              \<lparr>nrows = 5, ncols = 2,
                 cells = [[0, 0], [1, 1], [2, 2], [3, 3], [4, 4]]\<rparr> (Some Float32)
              [(''labels'', SliceDictAttr
                  [(''x'', Slice None None, Slice (Some 0) (Some 1)),
                   (''y'', Slice None None, Slice (Some 1) (Some 2))])])"
    by code_simp
  have b: "build_ind_val_dsets [1, 5] True None None (Some [''x'', ''y'']) None
     = Inr (MicroDataset ''Spectroscopic_Indices''
              \<lparr>nrows = 1, ncols = 5, cells = [[0, 1, 2, 3, 4]]\<rparr> (Some UInt32)
              [(''labels'', SliceDictAttr
                  [(''x'', Slice (Some 0) (Some 1), Slice None None),
                   (''y'', Slice (Some 1) (Some 2), Slice None None)])],
            MicroDataset ''Spectroscopic_Values''
              \<lparr>nrows = 2, ncols = 5,
                 cells = [[0, 1, 2, 3, 4], [0, 1, 2, 3, 4]]\<rparr> (Some Float32)
              [(''labels'', SliceDictAttr
                  [(''x'', Slice (Some 0) (Some 1), Slice None None),
                   (''y'', Slice (Some 1) (Some 2), Slice None None)])])"
    by code_simp
  have g1: "getitem \<lparr>nrows = 5, ncols = 1, cells = [[0], [1], [2], [3], [4 :: nat]]\<rparr>
              (Slice None None, Slice (Some 1) (Some 2))
            = \<lparr>nrows = 5, ncols = 0, cells = [[], [], [], [], []]\<rparr>"
    by code_simp
  have g2: "getitem \<lparr>nrows = 5, ncols = 1, cells = [[0], [1], [2], [3], [4 :: nat]]\<rparr>
              (Slice None None, Slice (Some 0) (Some 1))
            = \<lparr>nrows = 5, ncols = 1, cells = [[0], [1], [2], [3], [4]]\<rparr>"
    by code_simp
  have g3: "getitem \<lparr>nrows = 1, ncols = 5, cells = [[0, 1, 2, 3, 4 :: nat]]\<rparr>
              (Slice (Some 1) (Some 2), Slice None None)
            = \<lparr>nrows = 0, ncols = 5, cells = []\<rparr>"
    by code_simp
  have s: "slice_indices (Slice (Some 1) (Some 2)) 1 = []"
    by code_simp
  show ?thesis
    unfolding a b using g1 g2 g3 s by simp
qed

section \<open>The specification on the length checks\<close>

lemma broadcast2_error:
  "broadcast2 f x y = Inl e \<Longrightarrow> e = ValueError broadcast_msg"
  by (auto simp: broadcast2_def broadcast_dim_def split: sum.splits if_splits)

lemma build_datasets_error:
  assumes "build_datasets dims sp s i l = Inl e"
  shows "e = ValueError broadcast_msg \<or> e = TypeError"
proof (cases "dims = []")
  case True
  with assms show ?thesis
    by (simp add: build_datasets_eq)
next
  case False
  with assms have "value_matrix dims s i = Inl e"
    unfolding build_datasets_eq by (auto split: sum.splits)
  then show ?thesis
    by (auto simp: value_matrix_def split: sum.splits dest: broadcast2_error)
qed

lemma broadcast_msg_not_length_error: "\<not> is_length_error (ValueError broadcast_msg)"
  by (simp add: is_length_error_def broadcast_msg_def steps_msg_def initial_values_msg_def
        labels_msg_def)

lemma TypeError_not_length_error: "\<not> is_length_error TypeError"
  by (simp add: is_length_error_def)

lemma check_steps_eq:
  "check_steps dims st = Inl e \<longleftrightarrow> bad_length st (length dims) \<and> e = ValueError steps_msg"
  by (auto simp: check_steps_def bad_length_def split: option.splits)

lemma check_initial_values_eq:
  "check_initial_values dims iv = Inl e
     \<longleftrightarrow> bad_length iv (length dims) \<and> e = ValueError initial_values_msg"
  by (auto simp: check_initial_values_def bad_length_def split: option.splits)

lemma check_labels_eq:
  "check_labels dims lb = Inl e \<longleftrightarrow> bad_length lb (length dims) \<and> e = ValueError labels_msg"
  by (auto simp: check_labels_def bad_length_def split: option.splits)

text \<open>
  C7 (the code departs from it). The specification says: \<^verbatim>\<open>build_ind_val_dsets\<close> raises
  a length-mismatch error if and only if one of the supplied arrays \<^verbatim>\<open>steps\<close>,
  \<^verbatim>\<open>initial_values\<close>, \<^verbatim>\<open>labels\<close> or \<^verbatim>\<open>units\<close> has a length other than the number of
  dimensions, and the error is raised at once, before any work. The checks of
  \<^verbatim>\<open>steps\<close>, \<^verbatim>\<open>initial_values\<close> and \<^verbatim>\<open>labels\<close> open the function; the check of
  \<^verbatim>\<open>units\<close> is its last statement, after the matrices and both datasets have been
  built. For the sizes \<open>[2, 1, 3]\<close> with one unit for three dimensions the matrix
  arithmetic raises first, and what comes out of the call is numpy's broadcasting error,
  not a length-mismatch error; the same \<^verbatim>\<open>ValueError\<close> is raised for these sizes when no
  array is supplied at all. Without the singleton axis, or with a wrong \<^verbatim>\<open>steps\<close> array
  instead, the length mismatch is reported.
\<close>

theorem units_mismatch_hidden_by_broadcast_error:
  "bad_length (Some [''nm'']) (length [2, 1, 3 :: nat])
   \<and> build_ind_val_dsets [2, 1, 3] True None None None (Some [''nm''])
       = Inl (ValueError broadcast_msg)
   \<and> \<not> is_length_error (ValueError broadcast_msg)
   \<and> build_ind_val_dsets [2, 1, 3] True None None None None = Inl (ValueError broadcast_msg)
   \<and> build_ind_val_dsets [2, 3] True None None None (Some [''nm''])
       = Inl (ValueError labels_msg)
   \<and> build_ind_val_dsets [2, 1, 3] True (Some [1]) None None (Some [''nm''])
       = Inl (ValueError steps_msg)"
proof -
  have a: "build_ind_val_dsets [2, 1, 3] True None None None (Some [''nm''])
       = Inl (ValueError broadcast_msg)"
    by code_simp
  have b: "build_ind_val_dsets [2, 1, 3] True None None None None
       = Inl (ValueError broadcast_msg)"
    by code_simp
  have c: "build_ind_val_dsets [2, 3] True None None None (Some [''nm''])
       = Inl (ValueError labels_msg)"
    by code_simp
  have d: "build_ind_val_dsets [2, 1, 3] True (Some [1]) None None (Some [''nm''])
       = Inl (ValueError steps_msg)"
    by code_simp
  show ?thesis
    using a b c d broadcast_msg_not_length_error by (simp add: bad_length_def)
qed

text \<open>
  The order of the checks: \<^verbatim>\<open>steps\<close>, \<^verbatim>\<open>initial_values\<close> and \<^verbatim>\<open>labels\<close> first, whatever
  the sizes are; \<^verbatim>\<open>units\<close> only on arguments for which the datasets are built. When no
  supplied array has a wrong length, no length-mismatch error is raised.
\<close>

lemma length_checks_in_order:
  "(bad_length st (length dims) \<longrightarrow>
      build_ind_val_dsets dims sp st iv lb un = Inl (ValueError steps_msg))
   \<and> (\<not> bad_length st (length dims) \<longrightarrow> bad_length iv (length dims) \<longrightarrow>
      build_ind_val_dsets dims sp st iv lb un = Inl (ValueError initial_values_msg))
   \<and> (\<not> bad_length st (length dims) \<longrightarrow> \<not> bad_length iv (length dims) \<longrightarrow>
      bad_length lb (length dims) \<longrightarrow>
      build_ind_val_dsets dims sp st iv lb un = Inl (ValueError labels_msg))
   \<and> ((\<exists>ds. build_ind_val_dsets dims sp st iv lb None = Inr ds) \<longrightarrow>
      bad_length un (length dims) \<longrightarrow>
      build_ind_val_dsets dims sp st iv lb un = Inl (ValueError labels_msg))
   \<and> ((\<exists>ds. build_ind_val_dsets dims sp st iv lb None = Inr ds) \<longrightarrow>
      \<not> bad_length un (length dims) \<longrightarrow>
      (\<exists>ds. build_ind_val_dsets dims sp st iv lb un = Inr ds))
   \<and> (\<not> bad_length st (length dims) \<longrightarrow> \<not> bad_length iv (length dims) \<longrightarrow>
      \<not> bad_length lb (length dims) \<longrightarrow> \<not> bad_length un (length dims) \<longrightarrow>
      (\<forall>e. build_ind_val_dsets dims sp st iv lb un = Inl e \<longrightarrow> \<not> is_length_error e))"
proof -
  have s: "bad_length st (length dims) \<longrightarrow>
      build_ind_val_dsets dims sp st iv lb un = Inl (ValueError steps_msg)"
    by (auto simp: build_ind_val_dsets_def check_steps_def bad_length_def split: option.splits)
  have i: "\<not> bad_length st (length dims) \<longrightarrow> bad_length iv (length dims) \<longrightarrow>
      build_ind_val_dsets dims sp st iv lb un = Inl (ValueError initial_values_msg)"
    by (auto simp: build_ind_val_dsets_def check_steps_def check_initial_values_def
          bad_length_def split: option.splits)
  have l: "\<not> bad_length st (length dims) \<longrightarrow> \<not> bad_length iv (length dims) \<longrightarrow>
      bad_length lb (length dims) \<longrightarrow>
      build_ind_val_dsets dims sp st iv lb un = Inl (ValueError labels_msg)"
    by (auto simp: build_ind_val_dsets_def check_steps_def check_initial_values_def
          check_labels_def bad_length_def split: option.splits)
  have u: "(\<exists>ds. build_ind_val_dsets dims sp st iv lb None = Inr ds) \<longrightarrow>
      bad_length un (length dims) \<longrightarrow>
      build_ind_val_dsets dims sp st iv lb un = Inl (ValueError labels_msg)"
    unfolding build_ind_val_dsets_def
    by (auto simp: bad_length_def split: sum.splits option.splits)
  have r: "(\<exists>ds. build_ind_val_dsets dims sp st iv lb None = Inr ds) \<longrightarrow>
      \<not> bad_length un (length dims) \<longrightarrow>
      (\<exists>ds. build_ind_val_dsets dims sp st iv lb un = Inr ds)"
    unfolding build_ind_val_dsets_def
    by (auto simp: bad_length_def split: sum.splits option.splits)
  have n: "\<not> bad_length st (length dims) \<longrightarrow> \<not> bad_length iv (length dims) \<longrightarrow>
      \<not> bad_length lb (length dims) \<longrightarrow> \<not> bad_length un (length dims) \<longrightarrow>
      (\<forall>e. build_ind_val_dsets dims sp st iv lb un = Inl e \<longrightarrow> \<not> is_length_error e)"
  proof (intro impI allI)
    fix e
    assume ok: "\<not> bad_length st (length dims)" "\<not> bad_length iv (length dims)"
      "\<not> bad_length lb (length dims)" "\<not> bad_length un (length dims)"
      and e: "build_ind_val_dsets dims sp st iv lb un = Inl e"
    from ok(1-3) obtain s' i' l' where c: "check_steps dims st = Inr s'"
      "check_initial_values dims iv = Inr i'" "check_labels dims lb = Inr l'"
      using check_steps_eq [of dims st] check_initial_values_eq [of dims iv]
        check_labels_eq [of dims lb]
      by (metis sum.exhaust_sel sum.collapse(1))
    from e c ok(4) have "build_datasets dims sp s' i' l' = Inl e"
      unfolding build_ind_val_dsets_def
      by (auto simp: bad_length_def split: sum.splits option.splits if_splits)
    then show "\<not> is_length_error e"
      using build_datasets_error broadcast_msg_not_length_error TypeError_not_length_error
      by blast
  qed
  from s i l u r n show ?thesis
    by blast
qed

section \<open>The specification on \<^verbatim>\<open>simple_write\<close>\<close>

lemma and_then_Inr:
  "and_then r f = Inr y \<longleftrightarrow> (\<exists>x. r = Inr x \<and> f x = Inr y)"
  by (cases r) (simp_all add: and_then_def)

text \<open>
  C9. For every call of \<^verbatim>\<open>simple_write\<close>, the attributes of the root node are the
  generated default parameter set with the fields \<^verbatim>\<open>data_type\<close> and \<^verbatim>\<open>translator\<close> set to
  the supplied data name and translator name; the two fields are forced whatever the
  run-parameter mapping of the caller holds, which goes to the group
  \<^verbatim>\<open>Measurement_000\<close> and is empty when omitted; and a call that returns, returns the
  supplied destination path, after the writer has been given that tree.
\<close>

theorem simple_write_root_attributes:
  "md_attrs (simple_write_tree date now data_name translator_name ds_main aux parm_dict)
     = AList.update ''translator'' (StrAttr translator_name)
         (AList.update ''data_type'' (StrAttr data_name) (generate_dummy_main_parms date now))
   \<and> map_of (md_attrs (simple_write_tree date now data_name translator_name ds_main aux
                 parm_dict)) ''data_type'' = Some (StrAttr data_name)
   \<and> map_of (md_attrs (simple_write_tree date now data_name translator_name ds_main aux
                 parm_dict)) ''translator'' = Some (StrAttr translator_name)
   \<and> (\<forall>k. k \<noteq> ''data_type'' \<longrightarrow> k \<noteq> ''translator'' \<longrightarrow>
         map_of (md_attrs (simple_write_tree date now data_name translator_name ds_main aux
                    parm_dict)) k
         = map_of (generate_dummy_main_parms date now) k)
   \<and> md_children (simple_write_tree date now data_name translator_name ds_main aux parm_dict)
       = [MicroDataGroup ''Measurement_000'' (case parm_dict of None \<Rightarrow> [] | Some d \<Rightarrow> d)
            [MicroDataGroup ''Channel_000'' [] (ds_main # aux)]]
   \<and> (\<forall>env w p w'.
         simple_write env w h5_path data_name translator_name ds_main aux parm_dict
           = Inr (p, w') \<longrightarrow>
         p = h5_path
         \<and> (\<exists>w2 refs w3.
               hdf_writeData env w2
                 (simple_write_tree (tm_strftime env w) (tm_time env w) data_name
                    translator_name ds_main aux parm_dict) = Inr (refs, w3)))"
proof -
  let ?tree = "simple_write_tree date now data_name translator_name ds_main aux parm_dict"
  have attrs: "md_attrs ?tree
     = AList.update ''translator'' (StrAttr translator_name)
         (AList.update ''data_type'' (StrAttr data_name) (generate_dummy_main_parms date now))"
    by (simp add: simple_write_tree_def)
  have children: "md_children ?tree
       = [MicroDataGroup ''Measurement_000'' (case parm_dict of None \<Rightarrow> [] | Some d \<Rightarrow> d)
            [MicroDataGroup ''Channel_000'' [] (ds_main # aux)]]"
    by (simp add: simple_write_tree_def)
  have ret: "\<forall>env w p w'.
         simple_write env w h5_path data_name translator_name ds_main aux parm_dict
           = Inr (p, w') \<longrightarrow>
         p = h5_path
         \<and> (\<exists>w2 refs w3.
               hdf_writeData env w2
                 (simple_write_tree (tm_strftime env w) (tm_time env w) data_name
                    translator_name ds_main aux parm_dict) = Inr (refs, w3))"
    by (auto simp: simple_write_def Let_def and_then_Inr split: prod.splits if_splits)
  show ?thesis
    unfolding attrs children using ret
    by (simp add: update_conv')
qed

theorem simple_write_root_attributes_witness:
  "simple_write plain_collaborators [''out.h5''] ''out.h5'' ''BELineData'' ''ODF''
       (MicroDataset ''Raw_Data'' () None []) [MicroDataset ''Position_Indices'' () None []]
       (Some [(''data_type'', StrAttr ''other'')])
     = Inr (''out.h5'', [''out.h5''])
   \<and> ''instrument'' \<noteq> ''data_type'' \<and> ''instrument'' \<noteq> ''translator''
   \<and> map_of (md_attrs (simple_write_tree ''2015_11_03'' 0 ''BELineData'' ''ODF''
                 (MicroDataset ''Raw_Data'' () None [])
                 [MicroDataset ''Position_Indices'' () None []]
                 (Some [(''data_type'', StrAttr ''other'')]))) ''instrument''
       = Some (StrAttr ''cypher_west'')
   \<and> map_of (md_attrs (simple_write_tree ''2015_11_03'' 0 ''BELineData'' ''ODF''
                 (MicroDataset ''Raw_Data'' () None [])
                 [MicroDataset ''Position_Indices'' () None []]
                 (Some [(''data_type'', StrAttr ''other'')]))) ''data_type''
       = Some (StrAttr ''BELineData'')
   \<and> md_children (simple_write_tree ''2015_11_03'' 0 ''BELineData'' ''ODF''
                 (MicroDataset ''Raw_Data'' () None [])
                 [MicroDataset ''Position_Indices'' () None []]
                 (Some [(''data_type'', StrAttr ''other'')]))
       = [MicroDataGroup ''Measurement_000'' [(''data_type'', StrAttr ''other'')]
            [MicroDataGroup ''Channel_000'' []
               [MicroDataset ''Raw_Data'' () None [],
                MicroDataset ''Position_Indices'' () None []]]]"
proof -
  let ?main = "MicroDataset ''Raw_Data'' () None [] :: unit microdata"
  let ?aux = "[MicroDataset ''Position_Indices'' () None []] :: unit microdata list"
  let ?parms = "Some [(''data_type'', StrAttr ''other'')]"
  note t = simple_write_root_attributes
    [of "''2015_11_03''" 0 "''BELineData''" "''ODF''" ?main ?aux ?parms "''out.h5''"]
  note t1 = t [THEN conjunct2]
  note t2 = t1 [THEN conjunct2]
  note t3 = t2 [THEN conjunct2]
  note t4 = t3 [THEN conjunct2]
  note t5 = t4 [THEN conjunct2]
  have r: "simple_write plain_collaborators [''out.h5''] ''out.h5'' ''BELineData'' ''ODF''
          ?main ?aux ?parms = Inr (''out.h5'', [''out.h5''])"
    by (simp add: simple_write_def plain_collaborators_def and_then_def)
  have p: "''out.h5'' = ''out.h5''"
    using t5 [rule_format, OF r] by (rule conjunct1)
  have k: "''instrument'' \<noteq> ''data_type''" "''instrument'' \<noteq> ''translator''"
    by simp_all
  have g: "map_of (generate_dummy_main_parms ''2015_11_03'' 0) ''instrument''
           = Some (StrAttr ''cypher_west'')"
    by (simp add: generate_dummy_main_parms_def assignments_def update_conv')
  have i: "map_of (md_attrs (simple_write_tree ''2015_11_03'' 0 ''BELineData'' ''ODF''
                   ?main ?aux ?parms)) ''instrument'' = Some (StrAttr ''cypher_west'')"
    using t3 [THEN conjunct1, rule_format, OF k] g by (rule trans)
  have d: "map_of (md_attrs (simple_write_tree ''2015_11_03'' 0 ''BELineData'' ''ODF''
                   ?main ?aux ?parms)) ''data_type'' = Some (StrAttr ''BELineData'')"
    by (rule t1 [THEN conjunct1])
  have c: "md_children (simple_write_tree ''2015_11_03'' 0 ''BELineData'' ''ODF''
                   ?main ?aux ?parms)
       = [MicroDataGroup ''Measurement_000'' [(''data_type'', StrAttr ''other'')]
            [MicroDataGroup ''Channel_000'' [] [?main, MicroDataset ''Position_Indices'' () None []]]]"
    using t4 [THEN conjunct1] by (simp only: option.case)
  show ?thesis
    by (intro conjI r k i d c)
qed

section \<open>The value matrix when no singleton axis is in the way\<close>

lemma broadcast2_row_right:
  assumes "nrows x = P" and "ncols x = c" and "c = length v \<or> c = 1"
  shows "broadcast2 f x (atleast_2d v)
         = Inr \<lparr>nrows = P, ncols = length v,
                cells = map (\<lambda>r. map (\<lambda>k. f (cells x ! r ! (if c = 1 then 0 else k)) (v ! k))
                                    [0..<length v]) [0..<P]\<rparr>"
proof -
  have d1: "broadcast_dim P 1 = Inr P"
    by (simp add: broadcast_dim_def)
  have d2: "broadcast_dim c (length v) = Inr (length v)"
    using assms(3) by (auto simp: broadcast_dim_def)
  have "\<And>r k. r < P \<Longrightarrow> k < length v \<Longrightarrow>
          f (bcast_at x r k) (bcast_at (atleast_2d v) r k)
          = f (cells x ! r ! (if c = 1 then 0 else k)) (v ! k)"
    using assms(1,2) by (auto simp: bcast_at_def atleast_2d_def)
  then show ?thesis
    using assms(1,2) d1 d2 by (simp add: broadcast2_def atleast_2d_def cong: map_cong)
qed

lemma broadcast2_row_left:
  assumes "nrows y = P" and "ncols y = length v"
  shows "broadcast2 f (atleast_2d v) y
         = Inr \<lparr>nrows = P, ncols = length v,
                cells = map (\<lambda>r. map (\<lambda>k. f (v ! k) (cells y ! r ! k)) [0..<length v])
                            [0..<P]\<rparr>"
proof -
  have d1: "broadcast_dim 1 P = Inr P"
    by (simp add: broadcast_dim_def)
  have d2: "broadcast_dim (length v) (length v) = Inr (length v)"
    by (simp add: broadcast_dim_def)
  have "\<And>r k. r < P \<Longrightarrow> k < length v \<Longrightarrow>
          f (bcast_at (atleast_2d v) r k) (bcast_at y r k) = f (v ! k) (cells y ! r ! k)"
    using assms by (auto simp: bcast_at_def atleast_2d_def)
  then show ?thesis
    using assms d1 d2 by (simp add: broadcast2_def atleast_2d_def cong: map_cong)
qed

text \<open>
  The arithmetic succeeds exactly when the index matrix has as many columns as there are
  axes, or a single column; with a single column and several axes that column is
  repeated for every axis.
\<close>

lemma value_matrix_ok:
  assumes "length st = length dims" and "length iv = length dims"
    and "ncols (position_mat dims) = length dims \<or> ncols (position_mat dims) = 1"
  shows "value_matrix dims st iv
         = Inr \<lparr>nrows = prod_list dims, ncols = length dims,
                cells = map (\<lambda>r. map (\<lambda>k. iv ! k
                              + rat_of_nat (cells (position_mat dims) ! r
                                  ! (if ncols (position_mat dims) = 1 then 0 else k))
                                * st ! k)
                            [0..<length dims]) [0..<prod_list dims]\<rparr>"
proof -
  let ?M = "position_mat dims"
  let ?X = "astype rat_of_nat ?M"
  let ?A = "ncols ?M"
  let ?n = "length dims"
  let ?P = "prod_list dims"
  let ?scaled = "\<lparr>nrows = ?P, ncols = ?n,
      cells = map (\<lambda>r. map (\<lambda>k. cells ?X ! r ! (if ?A = 1 then 0 else k) * st ! k)
                          [0..<?n]) [0..<?P]\<rparr>"
  have wf: "length (cells ?M) = ?P" "\<forall>row \<in> set (cells ?M). length row = ?A"
    using position_mat_wf [of dims]
    by (simp_all add: wf_ndarray_def position_mat_dims)
  have x: "nrows ?X = ?P" "ncols ?X = ?A"
    by (simp_all add: astype_def position_mat_dims)
  have c: "?A = length st \<or> ?A = 1"
    using assms(1,3) by simp
  have s: "broadcast2 (*) ?X (atleast_2d st) = Inr ?scaled"
    using broadcast2_row_right [OF x c, of "(*)"] assms(1) by simp
  have sc: "nrows ?scaled = ?P" "ncols ?scaled = length iv"
    using assms(2) by simp_all
  have entry: "\<And>r k. r < ?P \<Longrightarrow> k < ?n \<Longrightarrow>
      cells ?X ! r ! (if ?A = 1 then 0 else k)
      = rat_of_nat (cells ?M ! r ! (if ?A = 1 then 0 else k))"
  proof -
    fix r k
    assume r: "r < ?P" and k: "k < ?n"
    have len: "length (cells ?M ! r) = ?A"
      using wf r by simp
    have "(if ?A = 1 then 0 else k) < ?A"
      using assms(3) k by auto
    then show "cells ?X ! r ! (if ?A = 1 then 0 else k)
      = rat_of_nat (cells ?M ! r ! (if ?A = 1 then 0 else k))"
      using r wf(1) len by (simp add: astype_def)
  qed
  have "value_matrix dims st iv = broadcast2 (+) (atleast_2d iv) ?scaled"
    by (simp add: value_matrix_def s)
  also have "\<dots> = Inr \<lparr>nrows = ?P, ncols = length iv,
      cells = map (\<lambda>r. map (\<lambda>k. iv ! k + cells ?scaled ! r ! k) [0..<length iv]) [0..<?P]\<rparr>"
    by (rule broadcast2_row_left [OF sc])
  also have "\<dots> = Inr \<lparr>nrows = ?P, ncols = ?n,
      cells = map (\<lambda>r. map (\<lambda>k. iv ! k
                    + rat_of_nat (cells ?M ! r ! (if ?A = 1 then 0 else k)) * st ! k)
                  [0..<?n]) [0..<?P]\<rparr>"
    using assms(2) entry by (simp cong: map_cong)
  finally show ?thesis .
qed

lemma value_matrix_fails:
  assumes "length st = length dims"
    and "ncols (position_mat dims) \<noteq> length dims"
    and "ncols (position_mat dims) \<noteq> 1"
  shows "value_matrix dims st iv = Inl (ValueError broadcast_msg)"
proof -
  have "length dims \<noteq> 1"
  proof
    assume n: "length dims = 1"
    have "length (filter (\<lambda>s. s > 1) dims) \<le> length dims"
      by (rule length_filter_le)
    with n have "max 1 (length (filter (\<lambda>s. s > 1) dims)) = 1"
      by (simp only: max_def) simp
    with assms(3) show False
      by (simp only: position_mat_dims)
  qed
  with assms have "broadcast_dim (ncols (position_mat dims)) (length st)
                   = Inl (ValueError broadcast_msg)"
    by (simp add: broadcast_dim_def)
  then show ?thesis
    by (simp add: value_matrix_def broadcast2_def astype_def atleast_2d_def
          position_mat_dims broadcast_dim_def split: sum.splits)
qed

text \<open>
  Without an axis of size 1, what C3, C4 and C8 say holds: the value matrix has the shape
  of the index matrix, every entry is the initial value of its axis plus the index times
  the step of its axis, and the axis at position \<open>k\<close> has column \<open>k\<close> in both, which is
  what the slices of its label select when the labels are distinct.
\<close>

lemma all_active_columns:
  assumes "\<forall>s \<in> set dims. s > 1" and "dims \<noteq> []"
  shows "ncols (position_mat dims) = length dims"
    and "k \<le> length dims \<Longrightarrow> output_column dims k = k"
proof -
  have f: "\<And>xs :: nat list. \<forall>s \<in> set xs. s > 1 \<Longrightarrow> filter (\<lambda>s. s > 1) xs = xs"
    by (simp add: filter_id_conv)
  from assms show "ncols (position_mat dims) = length dims"
    by (cases dims) (simp_all add: position_mat_dims f)
  assume "k \<le> length dims"
  moreover have "\<forall>s \<in> set (take k dims). s > 1"
    using assms(1) by (meson in_set_takeD)
  ultimately show "output_column dims k = k"
    by (simp add: output_column_def f)
qed

lemma all_active_values:
  assumes "\<forall>s \<in> set dims. s > 1" and "dims \<noteq> []"
    and "length st = length dims" and "length iv = length dims"
    and "build_ind_val_dsets dims False (Some st) (Some iv) lb un = Inr (di, dv)"
  shows "nrows (md_data dv) = nrows (md_data di) \<and> ncols (md_data dv) = ncols (md_data di)
         \<and> (\<forall>r k. r < prod_list dims \<longrightarrow> k < length dims \<longrightarrow>
               cells (md_data dv) ! r ! k
               = iv ! k + rat_of_nat (cells (md_data di) ! r ! k) * st ! k)"
proof -
  have A: "ncols (position_mat dims) = length dims"
    using assms(1,2) by (rule all_active_columns)
  from build_ind_val_dsets_Inr [OF assms(5)] obtain s i l bi bv where
    c: "check_steps dims (Some st) = Inr s" "check_initial_values dims (Some iv) = Inr i"
    and b: "build_datasets dims False s i l = Inr (bi, bv)"
    and d: "md_data di = md_data bi" "md_data dv = md_data bv"
    by blast
  from c assms(3,4) have si: "s = st" "i = iv"
    by (simp_all add: check_steps_def check_initial_values_def)
  from build_datasets_Inr [OF b] obtain vals where
    v: "value_matrix dims s i = Inr vals"
    and m: "md_data bi = position_mat dims" "md_data bv = vals"
    by auto
  have one: "length dims \<noteq> 1 \<or> ncols (position_mat dims) = 1"
    using A by simp
  from v have vals: "vals
      = \<lparr>nrows = prod_list dims, ncols = length dims,
         cells = map (\<lambda>r. map (\<lambda>k. iv ! k
                       + rat_of_nat (cells (position_mat dims) ! r
                           ! (if ncols (position_mat dims) = 1 then 0 else k))
                         * st ! k)
                     [0..<length dims]) [0..<prod_list dims]\<rparr>"
    using value_matrix_ok [OF assms(3,4)] A unfolding si by simp
  have "\<And>k. k < length dims \<Longrightarrow>
          (if ncols (position_mat dims) = 1 then 0 else k) = k"
    using A by auto
  then show ?thesis
    unfolding d m vals using A by (simp add: position_mat_dims)
qed

section \<open>The length checks when the matrix arithmetic succeeds\<close>

lemma check_lengths:
  "check_steps dims st = Inr s \<Longrightarrow> length s = length dims"
  "check_initial_values dims iv = Inr i \<Longrightarrow> length i = length dims"
  by (auto simp: check_steps_def check_initial_values_def split: option.splits if_splits)

text \<open>
  On a list of sizes for which the index matrix can be combined with the steps (as many
  columns as axes, or one column), a length-mismatch error is raised exactly when a
  supplied array has a wrong length.
\<close>

lemma length_errors:
  "is_length_error (ValueError steps_msg)" "is_length_error (ValueError initial_values_msg)"
  "is_length_error (ValueError labels_msg)"
  by (simp_all add: is_length_error_def)

lemma length_error_iff:
  assumes "dims \<noteq> []"
    and "ncols (position_mat dims) = length dims \<or> ncols (position_mat dims) = 1"
  shows "(\<exists>e. build_ind_val_dsets dims sp st iv lb un = Inl e \<and> is_length_error e)
         \<longleftrightarrow> bad_length st (length dims) \<or> bad_length iv (length dims)
             \<or> bad_length lb (length dims) \<or> bad_length un (length dims)"
proof -
  note t = length_checks_in_order [of st dims sp iv lb un]
  note t1 = t [THEN conjunct1, rule_format]
  note t2 = t [THEN conjunct2, THEN conjunct1, rule_format]
  note t3 = t [THEN conjunct2, THEN conjunct2, THEN conjunct1, rule_format]
  note t4 = t [THEN conjunct2, THEN conjunct2, THEN conjunct2, THEN conjunct1, rule_format]
  note t6 = t [THEN conjunct2, THEN conjunct2, THEN conjunct2, THEN conjunct2, THEN conjunct2,
    rule_format]
  let ?raised = "\<exists>e. build_ind_val_dsets dims sp st iv lb un = Inl e \<and> is_length_error e"
  show ?thesis
  proof (cases "bad_length st (length dims)")
    case True
    from t1 [OF True] have ?raised
      using length_errors(1) by (intro exI conjI)
    with True show ?thesis by simp
  next
    case st: False
    show ?thesis
    proof (cases "bad_length iv (length dims)")
      case True
      from t2 [OF st True] have ?raised
        using length_errors(2) by (intro exI conjI)
      with True show ?thesis by simp
    next
      case iv: False
      show ?thesis
      proof (cases "bad_length lb (length dims)")
        case True
        from t3 [OF st iv True] have ?raised
          using length_errors(3) by (intro exI conjI)
        with True show ?thesis by simp
      next
        case lb: False
        obtain s where s: "check_steps dims st = Inr s"
          using st check_steps_eq [of dims st] by (cases "check_steps dims st") auto
        obtain i where i: "check_initial_values dims iv = Inr i"
          using iv check_initial_values_eq [of dims iv]
          by (cases "check_initial_values dims iv") auto
        obtain l where l: "check_labels dims lb = Inr l"
          using lb check_labels_eq [of dims lb] by (cases "check_labels dims lb") auto
        from value_matrix_ok [OF check_lengths(1) [OF s] check_lengths(2) [OF i] assms(2)]
        obtain v where "value_matrix dims s i = Inr v"
          by blast
        with assms(1) have "\<exists>ds. build_datasets dims sp s i l = Inr ds"
          by (simp add: build_datasets_eq)
        with s i l have built: "\<exists>ds. build_ind_val_dsets dims sp st iv lb None = Inr ds"
          by (auto simp: build_ind_val_dsets_def)
        show ?thesis
        proof (cases "bad_length un (length dims)")
          case True
          from t4 [OF built True] have ?raised
            using length_errors(3) by (intro exI conjI)
          with True show ?thesis by simp
        next
          case un: False
          from t6 [OF st iv lb un] have "\<not> ?raised"
            by blast
          with st iv lb un show ?thesis by simp
        qed
      qed
    qed
  qed
qed

end
